theory Spec2Isabelle
  imports Complex_Main "HOL-Library.Log_Nat"
begin

section \<open>Numbers\<close>

text \<open>
  The offsets, the rate, the gain and the clock are JavaScript numbers: IEEE 754 doubles.
  A finite number is modelled by its exact value, a rational; \<open>NaN\<close> and the two
  infinities are values of their own, since \<open>setConfig\<close> accepts them
  (\<open>typeof NaN === 'number'\<close>). Negative zero is not told apart from zero.

  Every sum, difference, product and remainder the engine computes goes through the
  decimal type \<open>Big\<close>. \<open>Big(x)\<close> reads a number through \<open>String(x)\<close>, the shortest decimal
  that reads back as \<open>x\<close>; the methods of \<open>Big\<close> used here are exact; the result goes back
  to a number through \<open>parseFloat(y.valueOf())\<close>, which rounds to the nearest double. Both
  conversions are part of the model.
\<close>

datatype number = Num rat | NaN | PosInfinity | NegInfinity

fun js_gt :: "number \<Rightarrow> number \<Rightarrow> bool" where
  "js_gt NaN b = False"
| "js_gt a NaN = False"
| "js_gt (Num x) (Num y) = (y < x)"
| "js_gt PosInfinity PosInfinity = False"
| "js_gt PosInfinity b = True"
| "js_gt a PosInfinity = False"
| "js_gt NegInfinity b = False"
| "js_gt a NegInfinity = True"

definition js_le :: "number \<Rightarrow> number \<Rightarrow> bool" where
  "js_le a b = ((a \<noteq> NaN \<and> a = b) \<or> js_gt b a)"

text \<open>\<open>x || 1\<close> on a number: zero and \<open>NaN\<close> are falsy.\<close>

definition js_or_one :: "number \<Rightarrow> number" where
  "js_or_one x = (if x = Num 0 \<or> x = NaN then Num 1 else x)"

subsection \<open>Rounding a decimal to the nearest double\<close>

text \<open>
  \<open>floor_log b q\<close> is the integer \<open>p\<close> with \<open>b ^ p \<le> q < b ^ (p + 1)\<close>, for positive
  \<open>q\<close>. A positive value is rounded on the grid of its binade, of step \<open>2 ^ (p - 52)\<close> and
  never finer than \<open>2 ^ -1074\<close> (the subnormal numbers), ties going to the even multiple;
  what reaches \<open>2 ^ 1024\<close> is infinite.
\<close>

definition pow_int :: "rat \<Rightarrow> int \<Rightarrow> rat" where
  "pow_int b e = (if 0 \<le> e then b ^ nat e else 1 / b ^ nat (- e))"

definition floor_log_below_one :: "nat \<Rightarrow> rat \<Rightarrow> int \<Rightarrow> int" where
  "floor_log_below_one b q p = (if pow_int (of_nat b) (p + 1) \<le> q then p + 1 else p)"

definition floor_log :: "nat \<Rightarrow> rat \<Rightarrow> int" where
  "floor_log b q =
     (if 1 \<le> q then int (floorlog b (nat \<lfloor>q\<rfloor>)) - 1
      else floor_log_below_one b q (- int (floorlog b (nat \<lfloor>1 / q\<rfloor>))))"

definition round_half_even :: "rat \<Rightarrow> int" where
  "round_half_even q =
     (if q - of_int \<lfloor>q\<rfloor> < 1 / 2 then \<lfloor>q\<rfloor>
      else if 1 / 2 < q - of_int \<lfloor>q\<rfloor> then \<lfloor>q\<rfloor> + 1
      else if even \<lfloor>q\<rfloor> then \<lfloor>q\<rfloor> else \<lfloor>q\<rfloor> + 1)"

definition finite_or_infinity :: "rat \<Rightarrow> number" where
  "finite_or_infinity r = (if pow_int 2 1024 \<le> r then PosInfinity else Num r)"

definition round_with_exponent :: "rat \<Rightarrow> int \<Rightarrow> number" where
  "round_with_exponent q e =
     finite_or_infinity (of_int (round_half_even (q / pow_int 2 e)) * pow_int 2 e)"

definition round_double :: "rat \<Rightarrow> number" where
  "round_double q = round_with_exponent q (max (floor_log 2 q - 52) (- 1074))"

fun negate :: "number \<Rightarrow> number" where
  "negate (Num q) = Num (- q)"
| "negate NaN = NaN"
| "negate PosInfinity = NegInfinity"
| "negate NegInfinity = PosInfinity"

definition parseFloat :: "rat \<Rightarrow> number" where
  "parseFloat q =
     (if q = 0 then Num 0
      else if 0 < q then round_double q
      else negate (round_double (- q)))"

subsection \<open>The shortest decimal of a double\<close>

text \<open>
  \<open>String(x)\<close> is the decimal of the fewest significant digits \<open>k\<close> that reads back as
  \<open>x\<close>, and among those of \<open>k\<close> digits the nearest to \<open>x\<close> (the even one on a tie). With
  \<open>k\<close> digits only the two neighbours of \<open>x\<close> on the grid of step
  \<open>10 ^ (floor_log 10 x - k + 1)\<close> can read back as \<open>x\<close>. Seventeen digits always do for
  a double.
\<close>

definition nearer :: "rat \<Rightarrow> int \<Rightarrow> rat \<Rightarrow> rat" where
  "nearer q s scale =
     (if q - of_int s * scale < of_int s * scale + scale - q then of_int s * scale
      else if of_int s * scale + scale - q < q - of_int s * scale then of_int s * scale + scale
      else if even s then of_int s * scale else of_int s * scale + scale)"

definition decimal_between :: "rat \<Rightarrow> rat \<Rightarrow> int \<Rightarrow> rat option" where
  "decimal_between q scale s =
     (if round_double (of_int s * scale) = Num q then
        (if round_double (of_int s * scale + scale) = Num q then Some (nearer q s scale)
         else Some (of_int s * scale))
      else if round_double (of_int s * scale + scale) = Num q then Some (of_int s * scale + scale)
      else None)"

definition decimal_on_grid :: "rat \<Rightarrow> rat \<Rightarrow> rat option" where
  "decimal_on_grid q scale = decimal_between q scale \<lfloor>q / scale\<rfloor>"

definition decimal_with_digits :: "nat \<Rightarrow> rat \<Rightarrow> rat option" where
  "decimal_with_digits k q = decimal_on_grid q (pow_int 10 (floor_log 10 q - int k + 1))"

fun shortest_digits :: "nat list \<Rightarrow> rat \<Rightarrow> rat" where
  "shortest_digits [] q = q"
| "shortest_digits (k # ks) q =
     (case decimal_with_digits k q of
        Some d \<Rightarrow> d
      | None \<Rightarrow> shortest_digits ks q)"

definition to_decimal :: "rat \<Rightarrow> rat" where
  "to_decimal q =
     (if q = 0 then 0
      else if 0 < q then
        shortest_digits [1, 2, 3, 4, 5, 6, 7, 8, 9, 10, 11, 12, 13, 14, 15, 16, 17] q
      else
        - shortest_digits [1, 2, 3, 4, 5, 6, 7, 8, 9, 10, 11, 12, 13, 14, 15, 16, 17] (- q))"

subsection \<open>Decimal arithmetic\<close>

text \<open>
  The constructor of \<open>Big\<close> throws on \<open>NaN\<close> and on the infinities, and so does every
  method on such an argument, which it passes to the constructor first. \<open>Big.mod\<close> throws
  on a zero divisor; otherwise it divides with zero decimal places and rounding mode 0
  (towards zero) and returns \<open>x - q * y\<close>, so the result has the sign of the dividend. A
  chain of calls is a value of \<open>exception + rat\<close>: once thrown, the exception is the
  result of the chain.
\<close>

datatype exception = Invalid_number | Division_by_zero

definition Big :: "number \<Rightarrow> exception + rat" where
  "Big n = (case n of Num q \<Rightarrow> Inr (to_decimal q) | _ \<Rightarrow> Inl Invalid_number)"

definition Big_method ::
  "(rat \<Rightarrow> rat \<Rightarrow> exception + rat) \<Rightarrow> exception + rat \<Rightarrow> number \<Rightarrow> exception + rat" where
  "Big_method f x n =
     (case x of
        Inl e \<Rightarrow> Inl e
      | Inr a \<Rightarrow> (case Big n of Inl e \<Rightarrow> Inl e | Inr b \<Rightarrow> f a b))"

definition Big_minus :: "exception + rat \<Rightarrow> number \<Rightarrow> exception + rat" where
  "Big_minus = Big_method (\<lambda>a b. Inr (a - b))"

definition Big_plus :: "exception + rat \<Rightarrow> number \<Rightarrow> exception + rat" where
  "Big_plus = Big_method (\<lambda>a b. Inr (a + b))"

definition Big_times :: "exception + rat \<Rightarrow> number \<Rightarrow> exception + rat" where
  "Big_times = Big_method (\<lambda>a b. Inr (a * b))"

definition round_down :: "rat \<Rightarrow> int" where
  "round_down q = (if 0 \<le> q then \<lfloor>q\<rfloor> else \<lceil>q\<rceil>)"

definition Big_mod :: "exception + rat \<Rightarrow> number \<Rightarrow> exception + rat" where
  "Big_mod =
     Big_method (\<lambda>a b. if b = 0 then Inl Division_by_zero
                        else Inr (a - of_int (round_down (a / b)) * b))"

definition parseFloat_valueOf :: "exception + rat \<Rightarrow> exception + number" where
  "parseFloat_valueOf x = (case x of Inl e \<Rightarrow> Inl e | Inr a \<Rightarrow> Inr (parseFloat a))"

section \<open>Data model of the playback engine\<close>

text \<open>
  The engine is the class \<open>WebAudioPlayer\<close>. Its private fields \<open>_x\<close> are the record
  fields \<open>p_x\<close>. A method that cannot throw takes the engine and returns the engine as
  the method leaves it; \<open>play\<close> and \<open>setConfig\<close> can throw, and return the exception, if
  any, together with the engine as it is when the method ends.
\<close>

datatype TPlayerState = Stop | Running | Paused | Ended

text \<open>The argument of \<open>setConfig\<close>: every field may be absent (\<open>undefined\<close>).\<close>

record IPlayerConfig =
  loop :: "bool option"
  startOffset :: "number option"
  endOffset :: "number option"
  loopStart :: "number option"
  loopEnd :: "number option"
  rateValue :: "number option"
  gainValue :: "number option"

text \<open>
  The Web Audio objects the engine drives. Of a decoded buffer only the duration is read.
  The context carries its state, its clock (\<open>ctx.currentTime\<close>) and the number of
  playback nodes it has created so far, which gives every node an identity.
\<close>

record AudioBuffer =
  buf_duration :: number

datatype AudioContextState = Ctx_suspended | Ctx_running | Ctx_closed

record AudioContext =
  ctx_state :: AudioContextState
  ctx_currentTime :: number
  ctx_created :: nat

record AudioBufferSourceNode =
  node_id :: nat
  node_buffer :: "AudioBuffer option"
  node_playbackRate :: number
  node_loop :: bool
  node_loopStart :: number
  node_loopEnd :: number
  node_started :: "(number \<times> number option) option"

record GainNode =
  gain_value :: number

text \<open>The messages \<open>play\<close> writes with \<open>console.error\<close>, in the order of the source.\<close>

datatype diagnostic =
    AudioBuffer_cannot_be_empty
  | LoopEnd_has_to_be_greater_than_startOffset
  | LoopEnd_has_to_be_greater_than_loopStart
  | EndOffset_has_to_be_greater_than_startOffset

text \<open>
  An asynchronous operation on the context that has been requested and has not settled
  yet, with the continuation the engine attached to it.
\<close>

datatype task =
    Resume_only
  | Resume_then_running
  | Suspend_then_paused
  | Close_context

record WebAudioPlayer =
  p_ctx :: AudioContext
  p_ctxStartTime :: number
  p_lastCurrentTime :: number
  p_audioBuffer :: "AudioBuffer option"
  p_duration :: number
  p_sourceNode :: "AudioBufferSourceNode option"
  p_state :: TPlayerState
  p_onStateChange :: bool
  p_gainNode :: "GainNode option"
  p_gainValue :: number
  p_loop :: bool
  p_startOffset :: number
  p_endOffset :: number
  p_loopStart :: number
  p_loopEnd :: number
  p_rateValue :: number
  live_nodes :: "nat list"
  console :: "diagnostic list"
  notified :: "TPlayerState list"
  pending :: "task list"

text \<open>
  \<open>p_onStateChange\<close> tells whether a subscriber is set; \<open>notified\<close> is the sequence of
  states the subscriber has been called with, \<open>console\<close> the diagnostics written so far,
  \<open>pending\<close> the asynchronous operations in flight, oldest first, and \<open>live_nodes\<close> the
  playback nodes that are connected to the gain node, by identity.
\<close>

section \<open>The engine\<close>

text \<open>
  The methods follow the source statement by statement. The calls on the Web Audio
  objects themselves (creating, connecting, starting and stopping a node, setting a
  parameter) are taken to succeed, and the subscriber is taken to return without calling
  back into the engine.
\<close>

definition WebAudioPlayer_new :: "AudioContextState \<Rightarrow> WebAudioPlayer" where
  "WebAudioPlayer_new initial =
     \<lparr> p_ctx = \<lparr> ctx_state = initial, ctx_currentTime = Num 0, ctx_created = 0 \<rparr>,
       p_ctxStartTime = Num 0,
       p_lastCurrentTime = Num 0,
       p_audioBuffer = None,
       p_duration = Num 0,
       p_sourceNode = None,
       p_state = Stop,
       p_onStateChange = False,
       p_gainNode = None,
       p_gainValue = Num 1,
       p_loop = False,
       p_startOffset = Num 0,
       p_endOffset = Num 0,
       p_loopStart = Num 0,
       p_loopEnd = Num 0,
       p_rateValue = Num 1,
       live_nodes = [],
       console = [],
       notified = [],
       pending = (if initial = Ctx_suspended then [Resume_only] else []) \<rparr>"

definition emitStateChange :: "TPlayerState \<Rightarrow> WebAudioPlayer \<Rightarrow> WebAudioPlayer" where
  "emitStateChange st s =
     (let s1 = s\<lparr>p_state := st\<rparr>
      in if p_onStateChange s1 then s1\<lparr>notified := notified s1 @ [p_state s1]\<rparr> else s1)"

definition destroySourceNode :: "WebAudioPlayer \<Rightarrow> WebAudioPlayer" where
  "destroySourceNode s =
     (case p_sourceNode s of
        Some n \<Rightarrow> s\<lparr>p_sourceNode := None,
                      live_nodes := removeAll (node_id n) (live_nodes s)\<rparr>
      | None \<Rightarrow> s)"

definition console_error :: "diagnostic \<Rightarrow> WebAudioPlayer \<Rightarrow> WebAudioPlayer" where
  "console_error d s = s\<lparr>console := console s @ [d]\<rparr>"

definition createBufferSource :: "AudioContext \<Rightarrow> AudioBufferSourceNode \<times> AudioContext" where
  "createBufferSource c =
     (\<lparr> node_id = ctx_created c, node_buffer = None, node_playbackRate = Num 1,
        node_loop = False, node_loopStart = Num 0, node_loopEnd = Num 0,
        node_started = None \<rparr>,
      c\<lparr>ctx_created := Suc (ctx_created c)\<rparr>)"

definition play :: "WebAudioPlayer \<Rightarrow> exception option \<times> WebAudioPlayer" where
  "play s =
     (case p_audioBuffer s of
        None \<Rightarrow> (None, console_error AudioBuffer_cannot_be_empty s)
      | Some audioBuffer \<Rightarrow>
          if p_loop s \<and> js_gt (p_startOffset s) (p_loopEnd s) then
            (None, console_error LoopEnd_has_to_be_greater_than_startOffset s)
          else if p_loop s \<and> js_gt (p_loopStart s) (p_loopEnd s) then
            (None, console_error LoopEnd_has_to_be_greater_than_loopStart s)
          else if \<not> p_loop s \<and> js_gt (p_startOffset s) (p_endOffset s) then
            (None, console_error EndOffset_has_to_be_greater_than_startOffset s)
          else if p_state s = Paused then
            (None, s\<lparr>pending := pending s @ [Resume_then_running]\<rparr>)
          else
            (let s1 = destroySourceNode s;
                 (node0, ctx1) = createBufferSource (p_ctx s1);
                 node1 = node0\<lparr>node_buffer := Some audioBuffer,
                               node_playbackRate := p_rateValue s1\<rparr>;
                 gainNode = (case p_gainNode s1 of
                               None \<Rightarrow> \<lparr> gain_value = p_gainValue s1 \<rparr>
                             | Some g \<Rightarrow> g);
                 s2 = s1\<lparr>p_ctx := ctx1,
                         p_sourceNode := Some node1,
                         p_gainNode := Some gainNode,
                         live_nodes := live_nodes s1 @ [node_id node1],
                         p_ctxStartTime := ctx_currentTime ctx1\<rparr>
             in if p_loop s2 then
                  (None,
                   emitStateChange Running
                     (s2\<lparr>p_sourceNode :=
                           Some (node1\<lparr>node_loop := p_loop s2,
                                        node_loopStart := p_loopStart s2,
                                        node_loopEnd := p_loopEnd s2,
                                        node_started := Some (p_startOffset s2, None)\<rparr>)\<rparr>))
                else
                  (case parseFloat_valueOf
                          (Big_minus (Big (p_endOffset s2)) (p_startOffset s2)) of
                     Inl e \<Rightarrow> (Some e, s2)
                   | Inr duration \<Rightarrow>
                       (None,
                        emitStateChange Running
                          (s2\<lparr>p_sourceNode :=
                                Some (node1\<lparr>node_started :=
                                               Some (p_startOffset s2, Some duration)\<rparr>)\<rparr>)))))"

definition pause :: "WebAudioPlayer \<Rightarrow> WebAudioPlayer" where
  "pause s =
     (if p_state s = Running then s\<lparr>pending := pending s @ [Suspend_then_paused]\<rparr>
      else s)"

definition stop :: "WebAudioPlayer \<Rightarrow> WebAudioPlayer" where
  "stop s =
     (case p_sourceNode s of
        Some n \<Rightarrow>
          (let s1 = destroySourceNode s;
               s2 = s1\<lparr>p_lastCurrentTime := p_startOffset s1\<rparr>
           in emitStateChange Stop s2)
      | None \<Rightarrow> s)"

definition currentTime :: "WebAudioPlayer \<Rightarrow> exception + number" where
  "currentTime s =
     (if p_state s = Running then
        (if p_loop s then
           (case parseFloat_valueOf (Big_minus (Big (p_loopStart s)) (p_startOffset s)) of
              Inl e \<Rightarrow> Inl e
            | Inr startOffsetGap \<Rightarrow>
                (case parseFloat_valueOf (Big_minus (Big (p_loopEnd s)) (p_loopStart s)) of
                   Inl e \<Rightarrow> Inl e
                 | Inr loopGap \<Rightarrow>
                     parseFloat_valueOf
                       (Big_plus
                          (Big_mod
                             (Big_minus
                                (Big_times
                                   (Big_minus (Big (ctx_currentTime (p_ctx s)))
                                      (p_ctxStartTime s))
                                   (p_rateValue s))
                                startOffsetGap)
                             (js_or_one loopGap))
                          (p_loopStart s))))
         else
           parseFloat_valueOf
             (Big_plus
                (Big_times
                   (Big_minus (Big (ctx_currentTime (p_ctx s))) (p_ctxStartTime s))
                   (p_rateValue s))
                (p_startOffset s)))
      else Inr (p_lastCurrentTime s))"

definition set_audioBuffer :: "AudioBuffer \<Rightarrow> WebAudioPlayer \<Rightarrow> WebAudioPlayer" where
  "set_audioBuffer v s =
     s\<lparr>p_audioBuffer := Some v,
       p_duration := buf_duration v,
       p_startOffset := Num 0,
       p_endOffset := buf_duration v,
       p_loopStart := Num 0,
       p_loopEnd := buf_duration v\<rparr>"

definition setConfig ::
  "IPlayerConfig \<Rightarrow> WebAudioPlayer \<Rightarrow> exception option \<times> WebAudioPlayer" where
  "setConfig v s0 =
     (let needRestart0 = False;
          s1 = (case gainValue v of
                  Some g \<Rightarrow>
                    s0\<lparr>p_gainValue := g,
                       p_gainNode := (case p_gainNode s0 of
                                        Some n \<Rightarrow> Some (n\<lparr>gain_value := g\<rparr>)
                                      | None \<Rightarrow> None)\<rparr>
                | None \<Rightarrow> s0);
          (s2, needRestart2) = (case rateValue v of
                  Some r \<Rightarrow> (s1\<lparr>p_rateValue := r\<rparr>, True)
                | None \<Rightarrow> (s1, needRestart0));
          (s3, needRestart3) = (case loop v of
                  Some b \<Rightarrow> (s2\<lparr>p_loop := b\<rparr>, True)
                | None \<Rightarrow> (s2, needRestart2));
          (s4, needRestart4) = (case startOffset v of
                  Some x \<Rightarrow> (s3\<lparr>p_startOffset := x\<rparr>, True)
                | None \<Rightarrow> (s3, needRestart3));
          (s5, needRestart5) = (case endOffset v of
                  Some x \<Rightarrow>
                    (let s' = s4\<lparr>p_endOffset := x\<rparr>
                     in (s', if \<not> p_loop s' then True else needRestart4))
                | None \<Rightarrow> (s4, needRestart4));
          (s6, needRestart6) = (case loopStart v of
                  Some x \<Rightarrow> (s5\<lparr>p_loopStart := x\<rparr>, True)
                | None \<Rightarrow> (s5, needRestart5));
          (s7, needRestart) = (case loopEnd v of
                  Some x \<Rightarrow> (s6\<lparr>p_loopEnd := x\<rparr>, True)
                | None \<Rightarrow> (s6, needRestart6))
      in if needRestart then
           (let currentState = p_state s7;
                s8 = stop s7
            in if currentState = Running then play s8 else (None, s8))
         else (None, s7))"

definition set_onStateChange :: "bool \<Rightarrow> WebAudioPlayer \<Rightarrow> WebAudioPlayer" where
  "set_onStateChange v s = s\<lparr>p_onStateChange := v\<rparr>"

definition destroy :: "WebAudioPlayer \<Rightarrow> WebAudioPlayer" where
  "destroy s =
     (let s1 = destroySourceNode s
      in s1\<lparr>pending := pending s1 @ [Close_context]\<rparr>)"

definition onSourceNodeEnded :: "WebAudioPlayer \<Rightarrow> WebAudioPlayer" where
  "onSourceNodeEnded s =
     (let s1 = (if p_state s = Running then s\<lparr>p_lastCurrentTime := p_endOffset s\<rparr>
                else s)
      in emitStateChange Ended s1)"

section \<open>The environment: the clock and the settling of asynchronous operations\<close>

text \<open>
  The clock of the context advances only while the context is running; its readings are
  finite.
\<close>

definition clock_advance :: "rat \<Rightarrow> WebAudioPlayer \<Rightarrow> WebAudioPlayer" where
  "clock_advance d s =
     (case ctx_currentTime (p_ctx s) of
        Num t \<Rightarrow>
          if ctx_state (p_ctx s) = Ctx_running then
            s\<lparr>p_ctx := (p_ctx s)\<lparr>ctx_currentTime := Num (t + d)\<rparr>\<rparr>
          else s
      | _ \<Rightarrow> s)"

definition set_ctx_state :: "AudioContextState \<Rightarrow> WebAudioPlayer \<Rightarrow> WebAudioPlayer" where
  "set_ctx_state c s = s\<lparr>p_ctx := (p_ctx s)\<lparr>ctx_state := c\<rparr>\<rparr>"

text \<open>
  What happens when an operation settles. \<open>resume\<close> and \<open>suspend\<close> on a closed context
  reject, and the continuation is not run. The continuation of \<open>pause\<close> is the rest of
  its body after \<open>await\<close>: it reads \<open>currentTime\<close> first, and an exception there ends
  it.
\<close>

definition run_task :: "task \<Rightarrow> WebAudioPlayer \<Rightarrow> WebAudioPlayer" where
  "run_task t s =
     (case t of
        Close_context \<Rightarrow> set_ctx_state Ctx_closed s
      | Resume_only \<Rightarrow>
          if ctx_state (p_ctx s) = Ctx_closed then s else set_ctx_state Ctx_running s
      | Resume_then_running \<Rightarrow>
          if ctx_state (p_ctx s) = Ctx_closed then s
          else emitStateChange Running (set_ctx_state Ctx_running s)
      | Suspend_then_paused \<Rightarrow>
          if ctx_state (p_ctx s) = Ctx_closed then s
          else
            (let s1 = set_ctx_state Ctx_suspended s
             in case currentTime s1 of
                  Inl e \<Rightarrow> s1
                | Inr t \<Rightarrow> emitStateChange Paused (s1\<lparr>p_lastCurrentTime := t\<rparr>)))"

definition settle :: "WebAudioPlayer \<Rightarrow> WebAudioPlayer" where
  "settle s =
     (case pending s of
        [] \<Rightarrow> s
      | t # ts \<Rightarrow> run_task t (s\<lparr>pending := ts\<rparr>))"

section \<open>The buffer-acquisition functions\<close>

text \<open>
  Both functions return a promise. The transfer and the decoder belong to the platform:
  the model takes the outcome of the transfer and the decoder as arguments and returns
  the state of the promise once the transfer and the decoding are over. The decoder
  returns \<open>None\<close> when the bytes cannot be decoded; \<open>decodeAudioData\<close> is called with a
  success callback only.
\<close>

type_synonym ArrayBuffer = "nat list"

datatype 'a promise = Pending | Fulfilled 'a | Rejected

datatype xhr_outcome = Xhr_load ArrayBuffer | Xhr_error

datatype FileReader_result = Result_buffer ArrayBuffer | Result_string string | Result_null

definition loadAudioFromUrl ::
  "(ArrayBuffer \<Rightarrow> AudioBuffer option) \<Rightarrow> xhr_outcome \<Rightarrow> AudioBuffer promise" where
  "loadAudioFromUrl decodeAudioData outcome =
     (case outcome of
        Xhr_load arrayBuffer \<Rightarrow>
          (case decodeAudioData arrayBuffer of
             Some audioBuffer \<Rightarrow> Fulfilled audioBuffer
           | None \<Rightarrow> Pending)
      | Xhr_error \<Rightarrow> Rejected)"

definition loadAudioFromFile ::
  "(ArrayBuffer \<Rightarrow> AudioBuffer option) \<Rightarrow> FileReader_result \<Rightarrow> AudioBuffer promise" where
  "loadAudioFromFile decodeAudioData result =
     (case result of
        Result_buffer arrayBuffer \<Rightarrow>
          (case decodeAudioData arrayBuffer of
             Some audioBuffer \<Rightarrow> Fulfilled audioBuffer
           | None \<Rightarrow> Pending)
      | Result_string str \<Rightarrow> Pending
      | Result_null \<Rightarrow> Pending)"

section \<open>The specification's vocabulary\<close>

text \<open>
  The position formulas of the time model, written after the specification, on exact
  values. Its \<open>mod\<close> is the remainder of the decimal type: the quotient is rounded
  towards zero. \<open>position_wrapped\<close> takes the gap and the span as they are given;
  \<open>position_loop\<close> computes them from the offsets.
\<close>

definition rem_towards_zero :: "rat \<Rightarrow> rat \<Rightarrow> rat" where
  "rem_towards_zero x y = x - of_int (round_down (x / y)) * y"

definition position_wrapped :: "rat \<Rightarrow> rat \<Rightarrow> rat \<Rightarrow> rat \<Rightarrow> rat \<Rightarrow> rat \<Rightarrow> rat" where
  "position_wrapped clockNow clockAtStart rate gapToLoop loopSpan loopStart' =
     rem_towards_zero ((clockNow - clockAtStart) * rate - gapToLoop) loopSpan + loopStart'"

definition position_loop :: "rat \<Rightarrow> rat \<Rightarrow> rat \<Rightarrow> rat \<Rightarrow> rat \<Rightarrow> rat \<Rightarrow> rat" where
  "position_loop clockNow clockAtStart rate startOffset' loopStart' loopEnd' =
     position_wrapped clockNow clockAtStart rate (loopStart' - startOffset')
       (if loopEnd' - loopStart' = 0 then 1 else loopEnd' - loopStart') loopStart'"

definition position_range :: "rat \<Rightarrow> rat \<Rightarrow> rat \<Rightarrow> rat \<Rightarrow> rat" where
  "position_range clockNow clockAtStart rate startOffset' =
     (clockNow - clockAtStart) * rate + startOffset'"

text \<open>
  The ordering invariants of a configuration, and the configurations whose numbers are
  all finite.
\<close>

definition config_valid :: "WebAudioPlayer \<Rightarrow> bool" where
  "config_valid s =
     (if p_loop s then
        js_le (p_startOffset s) (p_loopEnd s) \<and> js_le (p_loopStart s) (p_loopEnd s)
      else js_le (p_startOffset s) (p_endOffset s))"

fun is_finite :: "number \<Rightarrow> bool" where
  "is_finite (Num q) = True"
| "is_finite x = False"

definition config_finite :: "WebAudioPlayer \<Rightarrow> bool" where
  "config_finite s =
     (is_finite (p_startOffset s) \<and> is_finite (p_endOffset s) \<and>
      is_finite (p_loopStart s) \<and> is_finite (p_loopEnd s) \<and>
      is_finite (p_rateValue s) \<and> is_finite (p_gainValue s))"

text \<open>
  The classification of a partial configuration: it is restart-required when it carries
  \<open>rate\<close>, \<open>loop\<close>, \<open>startOffset\<close>, \<open>loopStart\<close> or \<open>loopEnd\<close>, or \<open>endOffset\<close> while the
  engine is not in loop mode. \<open>storeConfig\<close> is the engine with the fields of the
  partial configuration recorded and nothing else done.
\<close>

definition restart_required :: "IPlayerConfig \<Rightarrow> WebAudioPlayer \<Rightarrow> bool" where
  "restart_required v s =
     (rateValue v \<noteq> None \<or> loop v \<noteq> None \<or> startOffset v \<noteq> None \<or>
      loopStart v \<noteq> None \<or> loopEnd v \<noteq> None \<or> (endOffset v \<noteq> None \<and> \<not> p_loop s))"

definition storeConfig :: "IPlayerConfig \<Rightarrow> WebAudioPlayer \<Rightarrow> WebAudioPlayer" where
  "storeConfig v s =
     s\<lparr>p_gainValue := (case gainValue v of Some g \<Rightarrow> g | None \<Rightarrow> p_gainValue s),
       p_gainNode := (case gainValue v of
                        Some g \<Rightarrow> (case p_gainNode s of
                                     Some n \<Rightarrow> Some (n\<lparr>gain_value := g\<rparr>)
                                   | None \<Rightarrow> None)
                      | None \<Rightarrow> p_gainNode s),
       p_rateValue := (case rateValue v of Some r \<Rightarrow> r | None \<Rightarrow> p_rateValue s),
       p_loop := (case loop v of Some b \<Rightarrow> b | None \<Rightarrow> p_loop s),
       p_startOffset := (case startOffset v of Some x \<Rightarrow> x | None \<Rightarrow> p_startOffset s),
       p_endOffset := (case endOffset v of Some x \<Rightarrow> x | None \<Rightarrow> p_endOffset s),
       p_loopStart := (case loopStart v of Some x \<Rightarrow> x | None \<Rightarrow> p_loopStart s),
       p_loopEnd := (case loopEnd v of Some x \<Rightarrow> x | None \<Rightarrow> p_loopEnd s)\<rparr>"

section \<open>Scenarios\<close>

text \<open>
  A fresh engine with a subscriber and a buffer of 30 seconds, and runs from it: a looped
  run (\<open>startOffset = 10\<close>, loop region 15 to 25) and a ranged run (10 to 20), each
  observed after \<open>t\<close> seconds of the clock; the ranged run paused after 5 seconds; the
  ranged run stopped while its pause was still in flight; a start offset set on the
  stopped engine; a configuration whose start offset lies behind the end of its loop
  region; a start offset that is \<open>NaN\<close>; and a ranged and a looped run that start at
  \<open>2 ^ 53\<close>, each observed after one second.
\<close>

definition empty_config :: IPlayerConfig where
  "empty_config =
     \<lparr> loop = None, startOffset = None, endOffset = None, loopStart = None,
       loopEnd = None, rateValue = None, gainValue = None \<rparr>"

definition buffer30 :: AudioBuffer where
  "buffer30 = \<lparr> buf_duration = Num 30 \<rparr>"

definition loaded_player :: WebAudioPlayer where
  "loaded_player =
     set_audioBuffer buffer30 (set_onStateChange True (WebAudioPlayer_new Ctx_running))"

definition loop_scenario :: "rat \<Rightarrow> WebAudioPlayer" where
  "loop_scenario t =
     clock_advance t (snd (play (snd (setConfig
       (empty_config\<lparr>loop := Some True, startOffset := Some (Num 10),
                      loopStart := Some (Num 15), loopEnd := Some (Num 25)\<rparr>)
       loaded_player))))"

definition range_scenario :: "rat \<Rightarrow> WebAudioPlayer" where
  "range_scenario t =
     clock_advance t (snd (play (snd (setConfig
       (empty_config\<lparr>loop := Some False, startOffset := Some (Num 10),
                      endOffset := Some (Num 20)\<rparr>)
       loaded_player))))"

definition paused_scenario :: WebAudioPlayer where
  "paused_scenario = settle (pause (range_scenario 5))"

definition orphan_scenario :: WebAudioPlayer where
  "orphan_scenario = settle (stop (pause (range_scenario 5)))"

definition offset_scenario :: WebAudioPlayer where
  "offset_scenario =
     snd (setConfig (empty_config\<lparr>startOffset := Some (Num 10)\<rparr>) loaded_player)"

definition invalid_scenario :: WebAudioPlayer where
  "invalid_scenario =
     snd (setConfig
       (empty_config\<lparr>loop := Some True, startOffset := Some (Num 30),
                      loopEnd := Some (Num 20)\<rparr>)
       loaded_player)"

definition nan_scenario :: WebAudioPlayer where
  "nan_scenario = snd (setConfig (empty_config\<lparr>startOffset := Some NaN\<rparr>) loaded_player)"

definition large_range_scenario :: WebAudioPlayer where
  "large_range_scenario =
     clock_advance 1 (snd (play (snd (setConfig
       (empty_config\<lparr>startOffset := Some (Num 9007199254740992),
                      endOffset := Some (Num 9007199254740994)\<rparr>)
       loaded_player))))"

definition large_loop_scenario :: WebAudioPlayer where
  "large_loop_scenario =
     clock_advance 1 (snd (play (snd (setConfig
       (empty_config\<lparr>loop := Some True, startOffset := Some (Num 9007199254740992),
                      loopStart := Some (Num 9007199254740992),
                      loopEnd := Some (Num 9007199254740994)\<rparr>)
       loaded_player))))"

section \<open>Facts about numbers\<close>

lemma floor_rat_numeral_divide [simp]:
  "\<lfloor>(numeral a :: rat) / numeral b\<rfloor> = numeral a div numeral b"
proof -
  have "\<lfloor>(of_int (numeral a) :: rat) / of_int (numeral b)\<rfloor> = numeral a div numeral b"
    by (rule floor_divide_of_int_eq)
  then show ?thesis by simp
qed

lemma floor_rat_one_divide [simp]:
  "\<lfloor>(1 :: rat) / numeral b\<rfloor> = 1 div numeral b"
proof -
  have "\<lfloor>(of_int 1 :: rat) / of_int (numeral b)\<rfloor> = 1 div numeral b"
    by (rule floor_divide_of_int_eq)
  then show ?thesis by simp
qed

lemma round_down_numeral_divide [simp]:
  "round_down (numeral a / numeral b) = numeral a div numeral b"
  by (simp add: round_down_def)

lemma round_down_one_divide [simp]:
  "round_down (1 / numeral b) = 1 div numeral b"
  by (simp add: round_down_def)

lemma round_down_zero [simp]: "round_down 0 = 0"
  by (simp add: round_down_def)

lemma round_down_one [simp]: "round_down 1 = 1"
  by (simp add: round_down_def)

lemma round_down_numeral [simp]: "round_down (numeral a) = numeral a"
  by (simp add: round_down_def)

lemma js_gt_Num [simp]: "js_gt (Num x) (Num y) = (y < x)"
  by simp

lemma js_le_Num [simp]: "js_le (Num x) (Num y) = (x \<le> y)"
  by (auto simp: js_le_def)

lemma js_le_not_gt: "js_le a b \<Longrightarrow> \<not> js_gt a b"
  by (cases a; cases b) (auto simp: js_le_def)

lemma js_gt_NaN [simp]: "js_gt NaN b = False" "js_gt a NaN = False"
  by (cases a; simp)+

lemma js_le_NaN [simp]: "js_le NaN b = False" "js_le a NaN = False"
  by (simp_all add: js_le_def)

lemma is_finite_iff: "is_finite x \<longleftrightarrow> (\<exists>q. x = Num q)"
  by (cases x) simp_all

text \<open>Evaluation of the two conversions on the values the scenarios use.\<close>

lemmas number_eval =
  to_decimal_def shortest_digits.simps decimal_with_digits_def decimal_on_grid_def
  decimal_between_def nearer_def floor_log_def floor_log_below_one_def pow_int_def
  round_double_def round_with_exponent_def finite_or_infinity_def
  round_half_even_def parseFloat_def compute_floorlog

lemma to_decimal_values:
  "to_decimal 0 = 0"
  "to_decimal 1 = 1"
  "to_decimal 2 = 2"
  "to_decimal 3 = 3"
  "to_decimal 5 = 5"
  "to_decimal 10 = 10"
  "to_decimal 15 = 15"
  "to_decimal 20 = 20"
  "to_decimal 25 = 25"
  "to_decimal 30 = 30"
  by (simp_all add: number_eval)

lemma to_decimal_large:
  "to_decimal 9007199254740992 = 9007199254740992"
  "to_decimal 9007199254740994 = 9007199254740994"
  by (simp_all add: number_eval)

lemma parseFloat_values:
  "parseFloat 0 = Num 0"
  "parseFloat 1 = Num 1"
  "parseFloat 2 = Num 2"
  "parseFloat 5 = Num 5"
  "parseFloat 10 = Num 10"
  "parseFloat 13 = Num 13"
  "parseFloat 15 = Num 15"
  "parseFloat 20 = Num 20"
  by (simp_all add: number_eval)

text \<open>
  \<open>2 ^ 53 + 1\<close> lies halfway between the doubles \<open>2 ^ 53\<close> and \<open>2 ^ 53 + 2\<close> and is
  rounded to the even one.
\<close>

lemma parseFloat_large:
  "parseFloat 9007199254740992 = Num 9007199254740992"
  "parseFloat 9007199254740993 = Num 9007199254740992"
  "parseFloat 9007199254740994 = Num 9007199254740994"
  by (simp_all add: number_eval)

text \<open>
  A decimal that is not an integer: \<open>1.00000000020000000001\<close>, the square of
  \<open>1.0000000001\<close>, is read as the double that prints as \<open>1.0000000002\<close>; and \<open>0.1\<close> is
  read as a double that is not \<open>1 / 10\<close> and prints as \<open>0.1\<close>.
\<close>

lemma parseFloat_decimal:
  "parseFloat (100000000020000000001 / 100000000000000000000) =
     Num (281474976766951 / 281474976710656)"
  "to_decimal (281474976766951 / 281474976710656) = 10000000002 / 10000000000"
  "parseFloat (1 / 10) = Num (3602879701896397 / 36028797018963968)"
  "to_decimal (3602879701896397 / 36028797018963968) = 1 / 10"
  by (simp_all add: number_eval)

text \<open>What is read back from the shortest decimal of a double is that double.\<close>

lemma pow_int_pos: "0 < b \<Longrightarrow> 0 < pow_int b e"
  by (simp add: pow_int_def)

lemma round_double_zero: "round_double 0 = Num 0"
proof -
  have "\<not> pow_int 2 1024 \<le> 0" using pow_int_pos [of 2 1024] by simp
  then show ?thesis
    by (simp add: round_double_def round_with_exponent_def round_half_even_def
          finite_or_infinity_def)
qed

lemma decimal_between_reads_back:
  "decimal_between q scale s = Some d \<Longrightarrow> round_double d = Num q"
  by (auto simp: decimal_between_def nearer_def split: if_splits)

lemma decimal_between_nonneg:
  assumes "decimal_between q scale s = Some d" and "0 \<le> s" and "0 < scale"
  shows "0 \<le> d"
proof -
  from assms(2,3) have "0 \<le> of_int s * scale" by simp
  with assms(1,3) show ?thesis
    by (auto simp: decimal_between_def nearer_def split: if_splits)
qed

lemma decimal_with_digits_pos:
  assumes "decimal_with_digits k q = Some d" and "0 < q"
  shows "0 < d \<and> round_double d = Num q"
proof -
  let ?scale = "pow_int 10 (floor_log 10 q - int k + 1)"
  have scale: "0 < ?scale" by (simp add: pow_int_pos)
  from assms(1) have between: "decimal_between q ?scale \<lfloor>q / ?scale\<rfloor> = Some d"
    by (simp add: decimal_with_digits_def decimal_on_grid_def)
  from assms(2) scale have "0 \<le> \<lfloor>q / ?scale\<rfloor>" by simp
  from decimal_between_nonneg [OF between this scale] have "0 \<le> d" .
  moreover from decimal_between_reads_back [OF between] have rd: "round_double d = Num q" .
  moreover have "d \<noteq> 0"
  proof
    assume "d = 0"
    with rd round_double_zero have "q = 0" by simp
    with assms(2) show False by simp
  qed
  ultimately show ?thesis by simp
qed

lemma shortest_digits_pos:
  assumes "0 < q" and "round_double q = Num q"
  shows "0 < shortest_digits ks q \<and> round_double (shortest_digits ks q) = Num q"
  using assms
proof (induction ks)
  case Nil
  then show ?case by simp
next
  case (Cons k ks)
  show ?case
  proof (cases "decimal_with_digits k q")
    case None
    with Cons show ?thesis by simp
  next
    case (Some d)
    from decimal_with_digits_pos [OF Some Cons.prems(1)] Some show ?thesis by simp
  qed
qed

lemma shortest_digits_nonzero: "0 < q \<Longrightarrow> 0 < shortest_digits ks q"
proof (induction ks)
  case Nil
  then show ?case by simp
next
  case (Cons k ks)
  show ?case
  proof (cases "decimal_with_digits k q")
    case None
    with Cons show ?thesis by simp
  next
    case (Some d)
    from decimal_with_digits_pos [OF Some Cons.prems] Some show ?thesis by simp
  qed
qed

lemma to_decimal_pos:
  "0 < q \<Longrightarrow>
     to_decimal q =
       shortest_digits [1, 2, 3, 4, 5, 6, 7, 8, 9, 10, 11, 12, 13, 14, 15, 16, 17] q"
  by (simp add: to_decimal_def del: shortest_digits.simps)

lemma to_decimal_neg:
  "q < 0 \<Longrightarrow>
     to_decimal q =
       - shortest_digits [1, 2, 3, 4, 5, 6, 7, 8, 9, 10, 11, 12, 13, 14, 15, 16, 17] (- q)"
  by (simp add: to_decimal_def del: shortest_digits.simps)

lemma to_decimal_eq_0_iff [simp]: "to_decimal q = 0 \<longleftrightarrow> q = 0"
proof -
  consider (zero) "q = 0" | (pos) "0 < q" | (neg) "q < 0" by linarith
  then show ?thesis
  proof cases
    case zero
    then show ?thesis by (simp add: to_decimal_def)
  next
    case pos
    from shortest_digits_nonzero [OF pos] have "0 < to_decimal q"
      by (simp only: to_decimal_pos [OF pos])
    with pos show ?thesis by simp
  next
    case neg
    then have "0 < - q" by simp
    from shortest_digits_nonzero [OF this] have "to_decimal q < 0"
      by (simp only: to_decimal_neg [OF neg] neg_less_0_iff_less)
    with neg show ?thesis by simp
  qed
qed

lemma to_decimal_reads_back:
  assumes "parseFloat q = Num q"
  shows "parseFloat (to_decimal q) = Num q"
proof -
  consider (zero) "q = 0" | (pos) "0 < q" | (neg) "q < 0" by linarith
  then show ?thesis
  proof cases
    case zero
    then show ?thesis by (simp add: to_decimal_def parseFloat_def)
  next
    case pos
    with assms have "round_double q = Num q" by (simp add: parseFloat_def)
    from shortest_digits_pos [OF pos this]
    have "0 < to_decimal q" and "round_double (to_decimal q) = Num q"
      by (simp_all only: to_decimal_pos [OF pos])
    then show ?thesis by (simp add: parseFloat_def)
  next
    case neg
    then have pos: "0 < - q" by simp
    from assms neg have "negate (round_double (- q)) = Num q"
      by (simp add: parseFloat_def)
    then have "round_double (- q) = Num (- q)"
      by (cases "round_double (- q)") simp_all
    from shortest_digits_pos [OF pos this]
    have "to_decimal q < 0" and "round_double (- to_decimal q) = Num (- q)"
      by (simp_all only: to_decimal_neg [OF neg] neg_less_0_iff_less minus_minus)
    then show ?thesis by (simp add: parseFloat_def)
  qed
qed

section \<open>Auxiliary facts about the engine\<close>

lemmas Big_defs =
  Big_def Big_method_def Big_minus_def Big_plus_def Big_times_def Big_mod_def
  parseFloat_valueOf_def js_or_one_def

lemmas engine_defs =
  set_audioBuffer_def set_onStateChange_def WebAudioPlayer_new_def clock_advance_def
  play_def setConfig_def stop_def destroySourceNode_def emitStateChange_def
  createBufferSource_def console_error_def pause_def settle_def run_task_def
  set_ctx_state_def currentTime_def onSourceNodeEnded_def destroy_def

text \<open>\<open>setConfig\<close> in one equation: record the fields, then stop, then play if it ran.\<close>

lemma setConfig_unfold:
  "setConfig v s =
     (if restart_required v s then
        (if p_state s = Running then play (stop (storeConfig v s))
         else (None, stop (storeConfig v s)))
      else (None, storeConfig v s))"
  by (cases s; cases "gainValue v"; cases "rateValue v"; cases "loop v"; cases "startOffset v";
      cases "endOffset v"; cases "loopStart v"; cases "loopEnd v")
     (simp_all add: setConfig_def restart_required_def storeConfig_def Let_def)

lemma stop_without_node: "p_sourceNode s = None \<Longrightarrow> stop s = s"
  by (simp add: stop_def)

lemma stop_with_node:
  "p_sourceNode s = Some n \<Longrightarrow>
     stop s =
       emitStateChange Stop
         (s\<lparr>p_sourceNode := None, live_nodes := removeAll (node_id n) (live_nodes s),
            p_lastCurrentTime := p_startOffset s\<rparr>)"
  by (simp add: stop_def destroySourceNode_def Let_def)

text \<open>The scenarios, evaluated.\<close>

lemma loaded_player_eval:
  "loaded_player =
     \<lparr> p_ctx = \<lparr> ctx_state = Ctx_running, ctx_currentTime = Num 0, ctx_created = 0 \<rparr>,
       p_ctxStartTime = Num 0, p_lastCurrentTime = Num 0,
       p_audioBuffer = Some \<lparr> buf_duration = Num 30 \<rparr>, p_duration = Num 30,
       p_sourceNode = None, p_state = Stop, p_onStateChange = True,
       p_gainNode = None, p_gainValue = Num 1, p_loop = False,
       p_startOffset = Num 0, p_endOffset = Num 30, p_loopStart = Num 0,
       p_loopEnd = Num 30, p_rateValue = Num 1,
       live_nodes = [], console = [], notified = [], pending = [] \<rparr>"
  by (simp add: loaded_player_def buffer30_def set_audioBuffer_def set_onStateChange_def
        WebAudioPlayer_new_def)

lemma loop_scenario_eval:
  "loop_scenario t =
     \<lparr> p_ctx = \<lparr> ctx_state = Ctx_running, ctx_currentTime = Num t, ctx_created = 1 \<rparr>,
       p_ctxStartTime = Num 0, p_lastCurrentTime = Num 0,
       p_audioBuffer = Some \<lparr> buf_duration = Num 30 \<rparr>, p_duration = Num 30,
       p_sourceNode =
         Some \<lparr> node_id = 0, node_buffer = Some \<lparr> buf_duration = Num 30 \<rparr>,
                node_playbackRate = Num 1, node_loop = True, node_loopStart = Num 15,
                node_loopEnd = Num 25, node_started = Some (Num 10, None) \<rparr>,
       p_state = Running, p_onStateChange = True,
       p_gainNode = Some \<lparr> gain_value = Num 1 \<rparr>, p_gainValue = Num 1, p_loop = True,
       p_startOffset = Num 10, p_endOffset = Num 30, p_loopStart = Num 15,
       p_loopEnd = Num 25, p_rateValue = Num 1,
       live_nodes = [0], console = [], notified = [Running], pending = [] \<rparr>"
  by (simp add: loop_scenario_def loaded_player_eval empty_config_def engine_defs Let_def)

lemma range_scenario_eval:
  "range_scenario t =
     \<lparr> p_ctx = \<lparr> ctx_state = Ctx_running, ctx_currentTime = Num t, ctx_created = 1 \<rparr>,
       p_ctxStartTime = Num 0, p_lastCurrentTime = Num 0,
       p_audioBuffer = Some \<lparr> buf_duration = Num 30 \<rparr>, p_duration = Num 30,
       p_sourceNode =
         Some \<lparr> node_id = 0, node_buffer = Some \<lparr> buf_duration = Num 30 \<rparr>,
                node_playbackRate = Num 1, node_loop = False, node_loopStart = Num 0,
                node_loopEnd = Num 0, node_started = Some (Num 10, Some (Num 10)) \<rparr>,
       p_state = Running, p_onStateChange = True,
       p_gainNode = Some \<lparr> gain_value = Num 1 \<rparr>, p_gainValue = Num 1, p_loop = False,
       p_startOffset = Num 10, p_endOffset = Num 20, p_loopStart = Num 0,
       p_loopEnd = Num 30, p_rateValue = Num 1,
       live_nodes = [0], console = [], notified = [Running], pending = [] \<rparr>"
  by (simp add: range_scenario_def loaded_player_eval empty_config_def engine_defs Big_defs
        to_decimal_values parseFloat_values Let_def)

lemma paused_scenario_eval:
  "paused_scenario =
     \<lparr> p_ctx = \<lparr> ctx_state = Ctx_suspended, ctx_currentTime = Num 5, ctx_created = 1 \<rparr>,
       p_ctxStartTime = Num 0, p_lastCurrentTime = Num 15,
       p_audioBuffer = Some \<lparr> buf_duration = Num 30 \<rparr>, p_duration = Num 30,
       p_sourceNode =
         Some \<lparr> node_id = 0, node_buffer = Some \<lparr> buf_duration = Num 30 \<rparr>,
                node_playbackRate = Num 1, node_loop = False, node_loopStart = Num 0,
                node_loopEnd = Num 0, node_started = Some (Num 10, Some (Num 10)) \<rparr>,
       p_state = Paused, p_onStateChange = True,
       p_gainNode = Some \<lparr> gain_value = Num 1 \<rparr>, p_gainValue = Num 1, p_loop = False,
       p_startOffset = Num 10, p_endOffset = Num 20, p_loopStart = Num 0,
       p_loopEnd = Num 30, p_rateValue = Num 1,
       live_nodes = [0], console = [], notified = [Running, Paused], pending = [] \<rparr>"
  by (simp add: paused_scenario_def range_scenario_eval pause_def settle_def run_task_def
        set_ctx_state_def currentTime_def emitStateChange_def Big_defs
        to_decimal_values parseFloat_values Let_def)

lemma orphan_scenario_eval:
  "orphan_scenario =
     \<lparr> p_ctx = \<lparr> ctx_state = Ctx_suspended, ctx_currentTime = Num 5, ctx_created = 1 \<rparr>,
       p_ctxStartTime = Num 0, p_lastCurrentTime = Num 10,
       p_audioBuffer = Some \<lparr> buf_duration = Num 30 \<rparr>, p_duration = Num 30,
       p_sourceNode = None,
       p_state = Paused, p_onStateChange = True,
       p_gainNode = Some \<lparr> gain_value = Num 1 \<rparr>, p_gainValue = Num 1, p_loop = False,
       p_startOffset = Num 10, p_endOffset = Num 20, p_loopStart = Num 0,
       p_loopEnd = Num 30, p_rateValue = Num 1,
       live_nodes = [], console = [], notified = [Running, Stop, Paused], pending = [] \<rparr>"
  by (simp add: orphan_scenario_def range_scenario_eval pause_def stop_def
        destroySourceNode_def settle_def run_task_def
        set_ctx_state_def currentTime_def emitStateChange_def Let_def)

lemma offset_scenario_eval:
  "offset_scenario =
     \<lparr> p_ctx = \<lparr> ctx_state = Ctx_running, ctx_currentTime = Num 0, ctx_created = 0 \<rparr>,
       p_ctxStartTime = Num 0, p_lastCurrentTime = Num 0,
       p_audioBuffer = Some \<lparr> buf_duration = Num 30 \<rparr>, p_duration = Num 30,
       p_sourceNode = None, p_state = Stop, p_onStateChange = True,
       p_gainNode = None, p_gainValue = Num 1, p_loop = False,
       p_startOffset = Num 10, p_endOffset = Num 30, p_loopStart = Num 0,
       p_loopEnd = Num 30, p_rateValue = Num 1,
       live_nodes = [], console = [], notified = [], pending = [] \<rparr>"
  by (simp add: offset_scenario_def loaded_player_eval empty_config_def engine_defs Let_def)

lemma invalid_scenario_eval:
  "invalid_scenario =
     \<lparr> p_ctx = \<lparr> ctx_state = Ctx_running, ctx_currentTime = Num 0, ctx_created = 0 \<rparr>,
       p_ctxStartTime = Num 0, p_lastCurrentTime = Num 0,
       p_audioBuffer = Some \<lparr> buf_duration = Num 30 \<rparr>, p_duration = Num 30,
       p_sourceNode = None, p_state = Stop, p_onStateChange = True,
       p_gainNode = None, p_gainValue = Num 1, p_loop = True,
       p_startOffset = Num 30, p_endOffset = Num 30, p_loopStart = Num 0,
       p_loopEnd = Num 20, p_rateValue = Num 1,
       live_nodes = [], console = [], notified = [], pending = [] \<rparr>"
  by (simp add: invalid_scenario_def loaded_player_eval empty_config_def engine_defs Let_def)

lemma nan_scenario_eval:
  "nan_scenario =
     \<lparr> p_ctx = \<lparr> ctx_state = Ctx_running, ctx_currentTime = Num 0, ctx_created = 0 \<rparr>,
       p_ctxStartTime = Num 0, p_lastCurrentTime = Num 0,
       p_audioBuffer = Some \<lparr> buf_duration = Num 30 \<rparr>, p_duration = Num 30,
       p_sourceNode = None, p_state = Stop, p_onStateChange = True,
       p_gainNode = None, p_gainValue = Num 1, p_loop = False,
       p_startOffset = NaN, p_endOffset = Num 30, p_loopStart = Num 0,
       p_loopEnd = Num 30, p_rateValue = Num 1,
       live_nodes = [], console = [], notified = [], pending = [] \<rparr>"
  by (simp add: nan_scenario_def loaded_player_eval empty_config_def engine_defs Let_def)

lemma large_range_scenario_eval:
  "large_range_scenario =
     \<lparr> p_ctx = \<lparr> ctx_state = Ctx_running, ctx_currentTime = Num 1, ctx_created = 1 \<rparr>,
       p_ctxStartTime = Num 0, p_lastCurrentTime = Num 0,
       p_audioBuffer = Some \<lparr> buf_duration = Num 30 \<rparr>, p_duration = Num 30,
       p_sourceNode =
         Some \<lparr> node_id = 0, node_buffer = Some \<lparr> buf_duration = Num 30 \<rparr>,
                node_playbackRate = Num 1, node_loop = False, node_loopStart = Num 0,
                node_loopEnd = Num 0,
                node_started = Some (Num 9007199254740992, Some (Num 2)) \<rparr>,
       p_state = Running, p_onStateChange = True,
       p_gainNode = Some \<lparr> gain_value = Num 1 \<rparr>, p_gainValue = Num 1, p_loop = False,
       p_startOffset = Num 9007199254740992, p_endOffset = Num 9007199254740994,
       p_loopStart = Num 0, p_loopEnd = Num 30, p_rateValue = Num 1,
       live_nodes = [0], console = [], notified = [Running], pending = [] \<rparr>"
  by (simp add: large_range_scenario_def loaded_player_eval empty_config_def engine_defs
        Big_defs to_decimal_large parseFloat_values Let_def)

lemma large_loop_scenario_eval:
  "large_loop_scenario =
     \<lparr> p_ctx = \<lparr> ctx_state = Ctx_running, ctx_currentTime = Num 1, ctx_created = 1 \<rparr>,
       p_ctxStartTime = Num 0, p_lastCurrentTime = Num 0,
       p_audioBuffer = Some \<lparr> buf_duration = Num 30 \<rparr>, p_duration = Num 30,
       p_sourceNode =
         Some \<lparr> node_id = 0, node_buffer = Some \<lparr> buf_duration = Num 30 \<rparr>,
                node_playbackRate = Num 1, node_loop = True,
                node_loopStart = Num 9007199254740992,
                node_loopEnd = Num 9007199254740994,
                node_started = Some (Num 9007199254740992, None) \<rparr>,
       p_state = Running, p_onStateChange = True,
       p_gainNode = Some \<lparr> gain_value = Num 1 \<rparr>, p_gainValue = Num 1, p_loop = True,
       p_startOffset = Num 9007199254740992, p_endOffset = Num 30,
       p_loopStart = Num 9007199254740992, p_loopEnd = Num 9007199254740994,
       p_rateValue = Num 1,
       live_nodes = [0], console = [], notified = [Running], pending = [] \<rparr>"
  by (simp add: large_loop_scenario_def loaded_player_eval empty_config_def engine_defs Let_def)

section \<open>The time model\<close>

text \<open>
  C1 as stated lets \<open>currentTime\<close> return the value of the formula itself, and fails: the
  accessor returns a double. A looped run from \<open>2 ^ 53\<close> with the loop region
  \<open>2 ^ 53\<close> to \<open>2 ^ 53 + 2\<close>, all of them doubles, is observed after one second at rate 1:
  the formula gives \<open>2 ^ 53 + 1\<close>, the accessor returns \<open>2 ^ 53\<close>.
\<close>

theorem currentTime_loop_exact_counterexample:
  "p_state large_loop_scenario = Running \<and> p_loop large_loop_scenario \<and>
   ctx_currentTime (p_ctx large_loop_scenario) = Num 1 \<and>
   p_ctxStartTime large_loop_scenario = Num 0 \<and>
   p_rateValue large_loop_scenario = Num 1 \<and>
   p_startOffset large_loop_scenario = Num 9007199254740992 \<and>
   p_loopStart large_loop_scenario = Num 9007199254740992 \<and>
   p_loopEnd large_loop_scenario = Num 9007199254740994 \<and>
   position_loop 1 0 1 9007199254740992 9007199254740992 9007199254740994 = 9007199254740993 \<and>
   currentTime large_loop_scenario = Inr (Num 9007199254740992) \<and>
   currentTime large_loop_scenario \<noteq>
     Inr (Num (position_loop 1 0 1 9007199254740992 9007199254740992 9007199254740994))"
proof -
  have formula:
    "position_loop 1 0 1 9007199254740992 9007199254740992 9007199254740994 = 9007199254740993"
    by (simp add: position_loop_def position_wrapped_def rem_towards_zero_def)
  have returned: "currentTime large_loop_scenario = Inr (Num 9007199254740992)"
    by (simp add: large_loop_scenario_eval currentTime_def Big_defs to_decimal_values
          to_decimal_large parseFloat_values parseFloat_large)
  show ?thesis
    by (simp add: formula returned) (simp add: large_loop_scenario_eval)
qed

text \<open>
  C1, amended. For every state with the engine running in loop mode, with a finite
  clock, anchor, rate and offsets, the \<open>currentTime\<close> accessor does not throw and returns
  the double nearest to
  \<open>((clockNow - clockAtStart) * rate - gapToLoop) mod loopSpan + loopStart\<close>, the
  formula being computed exactly on the shortest decimals of its operands. Here
  \<open>gapToLoop\<close> is the double nearest to \<open>loopStart - startOffset\<close> and \<open>loopSpan\<close> the
  double nearest to \<open>loopEnd - loopStart\<close>, replaced by 1 when it is zero, provided
  neither difference overflows. With \<open>startOffset = 10\<close>, \<open>loopStart = 15\<close>,
  \<open>loopEnd = 25\<close>, rate 1 and the anchor at 0 it returns 15 when the clock reads 5 and 20
  when the clock reads 20.
\<close>

theorem currentTime_loop_formula:
  assumes "p_state s = Running" and "p_loop s"
    and "ctx_currentTime (p_ctx s) = Num clockNow" and "p_ctxStartTime s = Num clockAtStart"
    and "p_rateValue s = Num rate" and "p_startOffset s = Num so"
    and "p_loopStart s = Num ls" and "p_loopEnd s = Num le"
    and "parseFloat (to_decimal ls - to_decimal so) = Num gapToLoop"
    and "parseFloat (to_decimal le - to_decimal ls) = Num loopGap"
  shows "currentTime s =
           Inr (parseFloat
                  (position_wrapped (to_decimal clockNow) (to_decimal clockAtStart)
                     (to_decimal rate) (to_decimal gapToLoop)
                     (if loopGap = 0 then 1 else to_decimal loopGap) (to_decimal ls))) \<and>
         (so = 10 \<and> ls = 15 \<and> le = 25 \<and> rate = 1 \<and> clockAtStart = 0 \<longrightarrow>
            (clockNow = 5 \<longrightarrow> currentTime s = Inr (Num 15)) \<and>
            (clockNow = 20 \<longrightarrow> currentTime s = Inr (Num 20)))"
proof -
  have formula: "currentTime s =
           Inr (parseFloat
                  (position_wrapped (to_decimal clockNow) (to_decimal clockAtStart)
                     (to_decimal rate) (to_decimal gapToLoop)
                     (if loopGap = 0 then 1 else to_decimal loopGap) (to_decimal ls)))"
    using assms
    by (simp add: currentTime_def Big_defs position_wrapped_def rem_towards_zero_def
          to_decimal_values)
  have scenario: "gapToLoop = 5 \<and> loopGap = 10" if "so = 10" and "ls = 15" and "le = 25"
    using assms(9,10) that by (simp add: to_decimal_values parseFloat_values)
  have five: "parseFloat (position_wrapped 5 0 1 5 10 15) = Num 15"
    by (simp add: position_wrapped_def rem_towards_zero_def parseFloat_values)
  have twenty: "parseFloat (position_wrapped 20 0 1 5 10 15) = Num 20"
    by (simp add: position_wrapped_def rem_towards_zero_def parseFloat_values)
  show ?thesis
    using formula scenario five twenty by (auto simp: to_decimal_values)
qed

theorem currentTime_loop_formula_witness:
  "p_state (loop_scenario 5) = Running \<and> p_loop (loop_scenario 5) \<and>
   currentTime (loop_scenario 5) = Inr (Num 15) \<and>
   currentTime (loop_scenario 20) = Inr (Num 20)"
proof -
  have run: "p_state (loop_scenario t) = Running" and lp: "p_loop (loop_scenario t)"
    and clock: "ctx_currentTime (p_ctx (loop_scenario t)) = Num t"
    and anchor: "p_ctxStartTime (loop_scenario t) = Num 0"
    and rate: "p_rateValue (loop_scenario t) = Num 1"
    and so: "p_startOffset (loop_scenario t) = Num 10"
    and ls: "p_loopStart (loop_scenario t) = Num 15"
    and le: "p_loopEnd (loop_scenario t) = Num 25" for t
    by (simp_all add: loop_scenario_eval)
  have gap: "parseFloat (to_decimal 15 - to_decimal 10) = Num 5"
    and span: "parseFloat (to_decimal 25 - to_decimal 15) = Num 10"
    by (simp_all add: to_decimal_values parseFloat_values)
  have "currentTime (loop_scenario 5) = Inr (Num 15)"
    using currentTime_loop_formula [OF run lp clock anchor rate so ls le gap span, of 5]
    by blast
  moreover have "currentTime (loop_scenario 20) = Inr (Num 20)"
    using currentTime_loop_formula [OF run lp clock anchor rate so ls le gap span, of 20]
    by blast
  ultimately show ?thesis using run lp by blast
qed

text \<open>
  C5 as stated lets \<open>currentTime\<close> return the value of
  \<open>(clockNow - clockAtStart) * rate + startOffset\<close> itself, and fails: the accessor returns
  a double. A ranged run from \<open>2 ^ 53\<close> is observed after one second at rate 1: the
  formula gives \<open>2 ^ 53 + 1\<close>, the accessor returns \<open>2 ^ 53\<close>.
\<close>

theorem currentTime_range_exact_counterexample:
  "p_state large_range_scenario = Running \<and> \<not> p_loop large_range_scenario \<and>
   ctx_currentTime (p_ctx large_range_scenario) = Num 1 \<and>
   p_ctxStartTime large_range_scenario = Num 0 \<and>
   p_rateValue large_range_scenario = Num 1 \<and>
   p_startOffset large_range_scenario = Num 9007199254740992 \<and>
   position_range 1 0 1 9007199254740992 = 9007199254740993 \<and>
   currentTime large_range_scenario = Inr (Num 9007199254740992) \<and>
   currentTime large_range_scenario \<noteq> Inr (Num (position_range 1 0 1 9007199254740992))"
proof -
  have formula: "position_range 1 0 1 9007199254740992 = 9007199254740993"
    by (simp add: position_range_def)
  have returned: "currentTime large_range_scenario = Inr (Num 9007199254740992)"
    by (simp add: large_range_scenario_eval currentTime_def Big_defs to_decimal_values
          to_decimal_large parseFloat_large)
  show ?thesis
    by (simp add: formula returned) (simp add: large_range_scenario_eval)
qed

text \<open>
  C5, amended. While the engine runs outside loop mode, with a finite clock, anchor, rate
  and start offset, \<open>currentTime\<close> does not throw and returns the double nearest to
  \<open>(clockNow - clockAtStart) * rate + startOffset\<close>, the formula being computed exactly
  on the shortest decimals of its operands. Whenever the engine does not run,
  \<open>currentTime\<close> returns the frozen position verbatim, whatever the clock reads.
\<close>

theorem currentTime_range_and_frozen:
  "(p_state s = Running \<and> \<not> p_loop s \<and>
    ctx_currentTime (p_ctx s) = Num clockNow \<and> p_ctxStartTime s = Num clockAtStart \<and>
    p_rateValue s = Num rate \<and> p_startOffset s = Num so \<longrightarrow>
      currentTime s =
        Inr (parseFloat
               (position_range (to_decimal clockNow) (to_decimal clockAtStart)
                  (to_decimal rate) (to_decimal so)))) \<and>
   (p_state s \<noteq> Running \<longrightarrow>
      currentTime s = Inr (p_lastCurrentTime s) \<and>
      currentTime (s\<lparr>p_ctx := c\<rparr>) = Inr (p_lastCurrentTime s))"
  by (simp add: currentTime_def position_range_def Big_defs)

theorem currentTime_range_and_frozen_witness:
  "p_state (range_scenario 3) = Running \<and> \<not> p_loop (range_scenario 3) \<and>
   currentTime (range_scenario 3) = Inr (Num 13) \<and>
   p_state paused_scenario \<noteq> Running \<and>
   currentTime paused_scenario = Inr (Num 15) \<and>
   currentTime (paused_scenario\<lparr>p_ctx := (p_ctx paused_scenario)\<lparr>ctx_currentTime := Num 99\<rparr>\<rparr>) =
     Inr (Num 15)"
proof -
  have run: "p_state (range_scenario 3) = Running \<and> \<not> p_loop (range_scenario 3) \<and>
      ctx_currentTime (p_ctx (range_scenario 3)) = Num 3 \<and>
      p_ctxStartTime (range_scenario 3) = Num 0 \<and>
      p_rateValue (range_scenario 3) = Num 1 \<and> p_startOffset (range_scenario 3) = Num 10"
    by (simp add: range_scenario_eval)
  have thirteen: "parseFloat (position_range (to_decimal 3) (to_decimal 0) (to_decimal 1)
                 (to_decimal 10)) = Num 13"
    by (simp add: position_range_def to_decimal_values parseFloat_values)
  have idle: "p_state paused_scenario \<noteq> Running"
    and frozen: "p_lastCurrentTime paused_scenario = Num 15"
    by (simp_all add: paused_scenario_eval)
  from currentTime_range_and_frozen [of "range_scenario 3" 3 0 1 10] run
  have "currentTime (range_scenario 3) =
          Inr (parseFloat (position_range (to_decimal 3) (to_decimal 0) (to_decimal 1)
                 (to_decimal 10)))"
    by blast
  with thirteen have a: "currentTime (range_scenario 3) = Inr (Num 13)" by simp
  from currentTime_range_and_frozen
         [of paused_scenario _ _ _ _ "(p_ctx paused_scenario)\<lparr>ctx_currentTime := Num 99\<rparr>"] idle
  have "currentTime paused_scenario = Inr (p_lastCurrentTime paused_scenario) \<and>
        currentTime (paused_scenario\<lparr>p_ctx := (p_ctx paused_scenario)\<lparr>ctx_currentTime := Num 99\<rparr>\<rparr>) =
          Inr (p_lastCurrentTime paused_scenario)"
    by blast
  with frozen have b: "currentTime paused_scenario = Inr (Num 15) \<and>
        currentTime (paused_scenario\<lparr>p_ctx := (p_ctx paused_scenario)\<lparr>ctx_currentTime := Num 99\<rparr>\<rparr>) =
          Inr (Num 15)"
    by simp
  from run a idle b show ?thesis by blast
qed

section \<open>Stopping\<close>

text \<open>
  C4 as stated lets \<open>stop\<close> reset \<open>currentTime\<close> to \<open>startOffset\<close> from every prior
  state, and fails: \<open>stop\<close> is guarded by the presence of a playback node: on the loaded,
  stopped engine, whose node has never been created, a start offset of 10 is recorded,
  and after \<open>stop\<close> the accessor still returns 0.
\<close>

theorem stop_resets_currentTime_counterexample:
  "p_startOffset (stop offset_scenario) = Num 10 \<and>
   currentTime (stop offset_scenario) = Inr (Num 0) \<and>
   currentTime (stop offset_scenario) \<noteq> Inr (p_startOffset (stop offset_scenario))"
  by (simp add: offset_scenario_eval stop_def currentTime_def)

text \<open>
  C4, amended. For every prior transport state in which a playback node is active, after \<open>stop\<close>
  the \<open>currentTime\<close> accessor returns the current \<open>startOffset\<close>: \<open>stop\<close> sets the frozen
  position to \<open>startOffset\<close>, not to the position playback had reached, and the state
  becomes stopped.
\<close>

theorem stop_resets_currentTime:
  assumes "p_sourceNode s \<noteq> None"
  shows "currentTime (stop s) = Inr (p_startOffset (stop s)) \<and>
         p_startOffset (stop s) = p_startOffset s \<and>
         p_lastCurrentTime (stop s) = p_startOffset s \<and>
         p_state (stop s) = Stop \<and>
         p_sourceNode (stop s) = None"
proof -
  from assms obtain n where "p_sourceNode s = Some n" by blast
  then show ?thesis
    by (simp add: stop_with_node emitStateChange_def currentTime_def Let_def)
qed

theorem stop_resets_currentTime_witness:
  "p_sourceNode (range_scenario 5) \<noteq> None \<and>
   currentTime (range_scenario 5) = Inr (Num 15) \<and>
   currentTime (stop (range_scenario 5)) = Inr (Num 10) \<and>
   p_state (stop (range_scenario 5)) = Stop"
proof -
  have node: "p_sourceNode (range_scenario 5) \<noteq> None"
    by (simp add: range_scenario_eval)
  have before: "currentTime (range_scenario 5) = Inr (Num 15)"
    by (simp add: range_scenario_eval currentTime_def Big_defs to_decimal_values
          parseFloat_values)
  have offset: "p_startOffset (range_scenario 5) = Num 10"
    by (simp add: range_scenario_eval)
  from stop_resets_currentTime [OF node] offset
  have "currentTime (stop (range_scenario 5)) = Inr (Num 10) \<and>
        p_state (stop (range_scenario 5)) = Stop"
    by simp
  with node before show ?thesis by blast
qed

text \<open>
  C10. When no playback node is active, \<open>stop\<close> changes nothing: the transport state, the
  frozen position, the configuration and the notifications delivered are those of before.
  This is the case on a new engine, after a previous \<open>stop\<close> and after \<open>destroy\<close>. In
  particular \<open>currentTime\<close> is not reset to \<open>startOffset\<close> then.
\<close>

theorem stop_without_node_noop:
  "(p_sourceNode s = None \<longrightarrow> stop s = s \<and> currentTime (stop s) = currentTime s) \<and>
   stop (WebAudioPlayer_new c) = WebAudioPlayer_new c \<and>
   stop (stop s) = stop s \<and>
   stop (destroy s) = destroy s"
proof -
  have new: "p_sourceNode (WebAudioPlayer_new c) = None"
    by (simp add: WebAudioPlayer_new_def)
  have stopped: "p_sourceNode (stop s) = None"
    by (cases "p_sourceNode s")
       (simp_all add: stop_def destroySourceNode_def emitStateChange_def Let_def)
  have destroyed: "p_sourceNode (destroy s) = None"
    by (cases "p_sourceNode s") (simp_all add: destroy_def destroySourceNode_def Let_def)
  show ?thesis
    using stop_without_node [OF new] stop_without_node [OF stopped]
      stop_without_node [OF destroyed] stop_without_node [of s]
    by simp
qed

theorem stop_without_node_noop_witness:
  "p_sourceNode (destroy paused_scenario) = None \<and>
   stop (destroy paused_scenario) = destroy paused_scenario \<and>
   p_state (stop (destroy paused_scenario)) = Paused \<and>
   p_startOffset (stop (destroy paused_scenario)) = Num 10 \<and>
   currentTime (stop (destroy paused_scenario)) = Inr (Num 15)"
proof -
  have node: "p_sourceNode (destroy paused_scenario) = None"
    by (simp add: paused_scenario_eval destroy_def destroySourceNode_def Let_def)
  have fields: "p_state (destroy paused_scenario) = Paused \<and>
                p_startOffset (destroy paused_scenario) = Num 10 \<and>
                currentTime (destroy paused_scenario) = Inr (Num 15)"
    by (simp add: paused_scenario_eval destroy_def destroySourceNode_def currentTime_def Let_def)
  from stop_without_node_noop [of "destroy paused_scenario"] node
  have "stop (destroy paused_scenario) = destroy paused_scenario" by blast
  with node fields show ?thesis by simp
qed

section \<open>The natural end\<close>

text \<open>
  C6 as stated lets a completion notification that arrives while the engine does not run
  change neither the state nor the frozen position, and fails: the handler guards the
  frozen position only, and on the paused engine the state becomes \<open>ended\<close>.
\<close>

theorem onSourceNodeEnded_not_running_counterexample:
  "p_state paused_scenario = Paused \<and>
   p_state (onSourceNodeEnded paused_scenario) = Ended \<and>
   p_state (onSourceNodeEnded paused_scenario) \<noteq> p_state paused_scenario"
  by (simp add: paused_scenario_eval onSourceNodeEnded_def emitStateChange_def Let_def)

text \<open>
  C6, amended. The completion notification sets the frozen position to exactly \<open>endOffset\<close> if the
  state is \<open>running\<close> when it fires, and leaves the frozen position as it is otherwise. In
  both cases the state becomes \<open>ended\<close> and the subscriber is told so.
\<close>

theorem onSourceNodeEnded_effect:
  "(p_state s = Running \<longrightarrow> p_lastCurrentTime (onSourceNodeEnded s) = p_endOffset s) \<and>
   (p_state s \<noteq> Running \<longrightarrow> p_lastCurrentTime (onSourceNodeEnded s) = p_lastCurrentTime s) \<and>
   p_state (onSourceNodeEnded s) = Ended \<and>
   currentTime (onSourceNodeEnded s) = Inr (p_lastCurrentTime (onSourceNodeEnded s)) \<and>
   notified (onSourceNodeEnded s) = notified s @ (if p_onStateChange s then [Ended] else [])"
  by (simp add: onSourceNodeEnded_def emitStateChange_def currentTime_def Let_def)

theorem onSourceNodeEnded_effect_witness:
  "p_state (range_scenario 10) = Running \<and>
   p_state (onSourceNodeEnded (range_scenario 10)) = Ended \<and>
   currentTime (onSourceNodeEnded (range_scenario 10)) = Inr (Num 20) \<and>
   p_state paused_scenario \<noteq> Running \<and>
   p_lastCurrentTime (onSourceNodeEnded paused_scenario) = Num 15"
proof -
  have run: "p_state (range_scenario 10) = Running" "p_endOffset (range_scenario 10) = Num 20"
    by (simp_all add: range_scenario_eval)
  have idle: "p_state paused_scenario \<noteq> Running" "p_lastCurrentTime paused_scenario = Num 15"
    by (simp_all add: paused_scenario_eval)
  from onSourceNodeEnded_effect [of "range_scenario 10"] run
  have a: "p_state (onSourceNodeEnded (range_scenario 10)) = Ended"
    "currentTime (onSourceNodeEnded (range_scenario 10)) = Inr (Num 20)"
    by simp_all
  from onSourceNodeEnded_effect [of paused_scenario] idle
  have b: "p_lastCurrentTime (onSourceNodeEnded paused_scenario) = Num 15"
    by simp
  from run(1) a idle(1) b show ?thesis by simp
qed

section \<open>Starting\<close>

lemma play_without_buffer:
  "p_audioBuffer s = None \<Longrightarrow>
     play s = (None, s\<lparr>console := console s @ [AudioBuffer_cannot_be_empty]\<rparr>)"
  by (simp add: play_def console_error_def)

text \<open>
  On finite offsets the checks of \<open>play\<close> are the ordering invariants: a configuration
  that violates them is reported and nothing else happens.
\<close>

lemma config_valid_checks:
  assumes "config_valid s"
  shows "\<not> (p_loop s \<and> js_gt (p_startOffset s) (p_loopEnd s))"
    and "\<not> (p_loop s \<and> js_gt (p_loopStart s) (p_loopEnd s))"
    and "\<not> (\<not> p_loop s \<and> js_gt (p_startOffset s) (p_endOffset s))"
  using assms unfolding config_valid_def
  by (cases "p_loop s"; simp add: js_le_not_gt)+

lemma play_invalid_config:
  assumes "p_audioBuffer s = Some b" and "\<not> config_valid s" and "config_finite s"
  shows "\<exists>d. d \<noteq> AudioBuffer_cannot_be_empty \<and>
             play s = (None, s\<lparr>console := console s @ [d]\<rparr>)"
proof -
  from assms(3) obtain so eo ls le
    where nums: "p_startOffset s = Num so" "p_endOffset s = Num eo"
      "p_loopStart s = Num ls" "p_loopEnd s = Num le"
    unfolding config_finite_def is_finite_iff by blast
  consider
      (start_loop) "p_loop s" "js_gt (p_startOffset s) (p_loopEnd s)"
    | (loop_region) "p_loop s" "\<not> js_gt (p_startOffset s) (p_loopEnd s)"
        "js_gt (p_loopStart s) (p_loopEnd s)"
    | (range) "\<not> p_loop s" "js_gt (p_startOffset s) (p_endOffset s)"
    using assms(2) nums unfolding config_valid_def by (cases "p_loop s") force+
  then show ?thesis
  proof cases
    case start_loop
    with assms(1)
    have "play s =
            (None, s\<lparr>console := console s @ [LoopEnd_has_to_be_greater_than_startOffset]\<rparr>)"
      by (simp add: play_def console_error_def)
    then show ?thesis by blast
  next
    case loop_region
    with assms(1)
    have "play s =
            (None, s\<lparr>console := console s @ [LoopEnd_has_to_be_greater_than_loopStart]\<rparr>)"
      by (simp add: play_def console_error_def)
    then show ?thesis by blast
  next
    case range
    with assms(1)
    have "play s =
            (None, s\<lparr>console := console s @ [EndOffset_has_to_be_greater_than_startOffset]\<rparr>)"
      by (simp add: play_def console_error_def)
    then show ?thesis by blast
  qed
qed

lemma play_rejected_is_noop:
  assumes "p_audioBuffer s = None \<or> (\<not> config_valid s \<and> config_finite s)"
  shows "\<exists>d. play s = (None, s\<lparr>console := console s @ [d]\<rparr>)"
proof (cases "p_audioBuffer s")
  case None
  then show ?thesis using play_without_buffer by blast
next
  case (Some b)
  with assms have "\<not> config_valid s" and "config_finite s" by simp_all
  from play_invalid_config [OF Some this] show ?thesis by blast
qed

text \<open>
  C7. The claim asks \<open>play\<close> to report every configuration that violates the ordering
  invariants and to do nothing else. The checks of \<open>play\<close> are written with \<open>>\<close>, which is
  false on \<open>NaN\<close>: with the start offset \<open>NaN\<close>, which \<open>setConfig\<close> records, the invariant
  \<open>startOffset <= endOffset\<close> is violated, no diagnostic is written, a playback node is
  created and connected, and \<open>play\<close> throws from the decimal arithmetic with the state
  still stopped.
\<close>

theorem play_NaN_offset_not_rejected:
  "p_audioBuffer nan_scenario \<noteq> None \<and>
   p_startOffset nan_scenario = NaN \<and>
   \<not> js_le (p_startOffset nan_scenario) (p_endOffset nan_scenario) \<and>
   p_sourceNode nan_scenario = None \<and>
   fst (play nan_scenario) = Some Invalid_number \<and>
   console (snd (play nan_scenario)) = [] \<and>
   p_state (snd (play nan_scenario)) = Stop \<and>
   map_option node_id (p_sourceNode (snd (play nan_scenario))) = Some 0 \<and>
   live_nodes (snd (play nan_scenario)) = [0] \<and>
   ctx_created (p_ctx (snd (play nan_scenario))) = 1"
  by (simp add: nan_scenario_eval play_def destroySourceNode_def createBufferSource_def
        Big_defs Let_def)

lemma play_when_paused:
  assumes "p_state s = Paused" and "p_audioBuffer s \<noteq> None" and "config_valid s"
  shows "play s = (None, s\<lparr>pending := pending s @ [Resume_then_running]\<rparr>)"
proof -
  from assms(2) obtain b where buf: "p_audioBuffer s = Some b" by blast
  show ?thesis
    using buf config_valid_checks [OF assms(3)] assms(1)
    by (cases "p_loop s") (simp_all add: play_def)
qed

text \<open>
  C8 as stated lets \<open>play\<close> on a paused engine resume the existing graph, and fails where
  no graph exists: a run that is stopped while its pause is in flight ends paused with
  no playback node; \<open>play\<close> then resumes the clock and the engine reports \<open>running\<close> with
  no node to play.
\<close>

theorem play_from_paused_no_graph_counterexample:
  "p_state orphan_scenario = Paused \<and>
   p_audioBuffer orphan_scenario \<noteq> None \<and>
   config_valid orphan_scenario \<and>
   p_sourceNode orphan_scenario = None \<and>
   fst (play orphan_scenario) = None \<and>
   p_state (settle (snd (play orphan_scenario))) = Running \<and>
   p_sourceNode (settle (snd (play orphan_scenario))) = None \<and>
   live_nodes (settle (snd (play orphan_scenario))) = []"
  by (simp add: orphan_scenario_eval config_valid_def play_def settle_def run_task_def
        set_ctx_state_def emitStateChange_def Let_def)

text \<open>
  C8, amended. When \<open>play\<close> is called on a paused engine with a buffer, a valid
  configuration and an active playback node, it only requests the resumption of the
  clock: no playback node is created, the node stays connected, the frozen position is
  kept, and neither the state nor the subscriber sees \<open>running\<close> yet. When the
  resumption settles the context runs again, from the reading at which it was
  suspended, with the same node; the state becomes \<open>running\<close>, and the subscriber is
  told so, only then.
\<close>

theorem play_from_paused_resumes:
  assumes "p_state s = Paused" and "p_audioBuffer s \<noteq> None" and "config_valid s"
    and "p_sourceNode s = Some n"
  shows "play s = (None, s\<lparr>pending := pending s @ [Resume_then_running]\<rparr>) \<and>
         p_state (snd (play s)) = Paused \<and>
         notified (snd (play s)) = notified s \<and>
         p_sourceNode (snd (play s)) = Some n \<and>
         live_nodes (snd (play s)) = live_nodes s \<and>
         p_ctx (snd (play s)) = p_ctx s \<and>
         p_lastCurrentTime (snd (play s)) = p_lastCurrentTime s \<and>
         (pending s = [] \<and> ctx_state (p_ctx s) \<noteq> Ctx_closed \<longrightarrow>
            p_state (settle (snd (play s))) = Running \<and>
            notified (settle (snd (play s))) =
              notified s @ (if p_onStateChange s then [Running] else []) \<and>
            ctx_state (p_ctx (settle (snd (play s)))) = Ctx_running \<and>
            ctx_currentTime (p_ctx (settle (snd (play s)))) = ctx_currentTime (p_ctx s) \<and>
            ctx_created (p_ctx (settle (snd (play s)))) = ctx_created (p_ctx s) \<and>
            p_sourceNode (settle (snd (play s))) = Some n \<and>
            live_nodes (settle (snd (play s))) = live_nodes s \<and>
            p_ctxStartTime (settle (snd (play s))) = p_ctxStartTime s \<and>
            p_lastCurrentTime (settle (snd (play s))) = p_lastCurrentTime s \<and>
            pending (settle (snd (play s))) = [])"
proof -
  have requested: "play s = (None, s\<lparr>pending := pending s @ [Resume_then_running]\<rparr>)"
    using assms(1,2,3) by (rule play_when_paused)
  have settled: "settle (s\<lparr>pending := [Resume_then_running]\<rparr>) =
      emitStateChange Running (set_ctx_state Ctx_running (s\<lparr>pending := []\<rparr>))"
    if "ctx_state (p_ctx s) \<noteq> Ctx_closed"
    using that by (simp add: settle_def run_task_def)
  show ?thesis
    using assms(1,4) settled
    by (simp add: requested emitStateChange_def set_ctx_state_def Let_def)
qed

theorem play_from_paused_resumes_witness:
  "p_state paused_scenario = Paused \<and> p_audioBuffer paused_scenario \<noteq> None \<and>
   config_valid paused_scenario \<and>
   map_option node_id (p_sourceNode paused_scenario) = Some 0 \<and>
   ctx_state (p_ctx paused_scenario) = Ctx_suspended \<and>
   p_state (snd (play paused_scenario)) = Paused \<and>
   notified (snd (play paused_scenario)) = [Running, Paused] \<and>
   p_state (settle (snd (play paused_scenario))) = Running \<and>
   notified (settle (snd (play paused_scenario))) = [Running, Paused, Running] \<and>
   ctx_state (p_ctx (settle (snd (play paused_scenario)))) = Ctx_running \<and>
   map_option node_id (p_sourceNode (settle (snd (play paused_scenario)))) = Some 0 \<and>
   live_nodes (settle (snd (play paused_scenario))) = [0] \<and>
   ctx_created (p_ctx (settle (snd (play paused_scenario)))) = 1"
proof -
  obtain n where node: "p_sourceNode paused_scenario = Some n" and id: "node_id n = 0"
    by (simp add: paused_scenario_eval)
  have pre: "p_state paused_scenario = Paused" "p_audioBuffer paused_scenario \<noteq> None"
    "config_valid paused_scenario"
    by (simp_all add: paused_scenario_eval config_valid_def)
  have more: "pending paused_scenario = [] \<and> ctx_state (p_ctx paused_scenario) \<noteq> Ctx_closed"
    by (simp add: paused_scenario_eval)
  have fields: "notified paused_scenario = [Running, Paused]" "p_onStateChange paused_scenario"
    "live_nodes paused_scenario = [0]"
    "ctx_created (p_ctx paused_scenario) = 1"
    "ctx_state (p_ctx paused_scenario) = Ctx_suspended"
    by (simp_all add: paused_scenario_eval)
  note resumed = play_from_paused_resumes [OF pre node]
  from resumed have now: "p_state (snd (play paused_scenario)) = Paused"
    "notified (snd (play paused_scenario)) = notified paused_scenario"
    by blast+
  from resumed more have later: "p_state (settle (snd (play paused_scenario))) = Running"
    "notified (settle (snd (play paused_scenario))) =
       notified paused_scenario @ (if p_onStateChange paused_scenario then [Running] else [])"
    "ctx_state (p_ctx (settle (snd (play paused_scenario)))) = Ctx_running"
    "p_sourceNode (settle (snd (play paused_scenario))) = Some n"
    "live_nodes (settle (snd (play paused_scenario))) = live_nodes paused_scenario"
    "ctx_created (p_ctx (settle (snd (play paused_scenario)))) =
       ctx_created (p_ctx paused_scenario)"
    by blast+
  from pre node id now later fields show ?thesis by simp
qed

section \<open>Reconfiguration\<close>

lemma storeConfig_frame:
  "p_state (storeConfig v s) = p_state s"
  "p_sourceNode (storeConfig v s) = p_sourceNode s"
  "p_lastCurrentTime (storeConfig v s) = p_lastCurrentTime s"
  "p_ctx (storeConfig v s) = p_ctx s"
  "p_audioBuffer (storeConfig v s) = p_audioBuffer s"
  "p_onStateChange (storeConfig v s) = p_onStateChange s"
  "live_nodes (storeConfig v s) = live_nodes s"
  "notified (storeConfig v s) = notified s"
  "console (storeConfig v s) = console s"
  "pending (storeConfig v s) = pending s"
  by (simp_all add: storeConfig_def)

lemma stop_frame:
  "p_ctx (stop s) = p_ctx s"
  "p_audioBuffer (stop s) = p_audioBuffer s"
  "p_onStateChange (stop s) = p_onStateChange s"
  "console (stop s) = console s"
  "pending (stop s) = pending s"
  "config_valid (stop s) = config_valid s"
  "config_finite (stop s) = config_finite s"
  "p_state (stop s) = (if p_sourceNode s = None then p_state s else Stop)"
  "p_sourceNode (stop s) = None"
  "p_lastCurrentTime (stop s) =
     (if p_sourceNode s = None then p_lastCurrentTime s else p_startOffset s)"
  "live_nodes (stop s) =
     (case p_sourceNode s of None \<Rightarrow> live_nodes s
      | Some n \<Rightarrow> removeAll (node_id n) (live_nodes s))"
  "notified (stop s) =
     notified s @ (if p_onStateChange s \<and> p_sourceNode s \<noteq> None then [Stop] else [])"
  by (cases "p_sourceNode s";
      simp add: stop_def destroySourceNode_def emitStateChange_def config_valid_def
        config_finite_def Let_def)+

text \<open>
  \<open>play\<close> with a buffer and a valid, finite configuration, on an engine that is not
  paused, does not throw: it disconnects the node it finds, creates a node that the
  context has not handed out before, connects it and anchors the run at the clock.
\<close>

lemma play_creates_node:
  assumes "p_audioBuffer s \<noteq> None" and "config_valid s" and "config_finite s"
    and "p_state s \<noteq> Paused"
  shows "fst (play s) = None \<and>
         p_state (snd (play s)) = Running \<and>
         ctx_created (p_ctx (snd (play s))) = Suc (ctx_created (p_ctx s)) \<and>
         map_option node_id (p_sourceNode (snd (play s))) = Some (ctx_created (p_ctx s)) \<and>
         live_nodes (snd (play s)) =
           (case p_sourceNode s of None \<Rightarrow> live_nodes s
            | Some n \<Rightarrow> removeAll (node_id n) (live_nodes s)) @ [ctx_created (p_ctx s)] \<and>
         p_ctxStartTime (snd (play s)) = ctx_currentTime (p_ctx s) \<and>
         p_lastCurrentTime (snd (play s)) = p_lastCurrentTime s \<and>
         console (snd (play s)) = console s \<and>
         notified (snd (play s)) = notified s @ (if p_onStateChange s then [Running] else [])"
proof -
  from assms(1) obtain b where buf: "p_audioBuffer s = Some b" by blast
  from assms(3) obtain so eo
    where nums: "p_startOffset s = Num so" "p_endOffset s = Num eo"
    unfolding config_finite_def is_finite_iff by blast
  show ?thesis
    using buf config_valid_checks [OF assms(2)] assms(4) nums
    by (cases "p_loop s"; cases "p_sourceNode s")
       (simp_all add: play_def destroySourceNode_def createBufferSource_def
          emitStateChange_def Big_defs Let_def)
qed

text \<open>
  Every call of \<open>play\<close> leaves a trace: a diagnostic, a request, or a new node.
\<close>

lemma play_leaves_trace:
  "console (snd (play s)) \<noteq> console s \<or> pending (snd (play s)) \<noteq> pending s \<or>
   ctx_created (p_ctx (snd (play s))) \<noteq> ctx_created (p_ctx s)"
proof (cases "p_audioBuffer s")
  case None
  then show ?thesis by (simp add: play_without_buffer)
next
  case (Some b)
  consider
      (rejected) "(p_loop s \<and> js_gt (p_startOffset s) (p_loopEnd s)) \<or>
                  (p_loop s \<and> js_gt (p_loopStart s) (p_loopEnd s)) \<or>
                  (\<not> p_loop s \<and> js_gt (p_startOffset s) (p_endOffset s))"
    | (paused) "\<not> (p_loop s \<and> js_gt (p_startOffset s) (p_loopEnd s))"
               "\<not> (p_loop s \<and> js_gt (p_loopStart s) (p_loopEnd s))"
               "\<not> (\<not> p_loop s \<and> js_gt (p_startOffset s) (p_endOffset s))"
               "p_state s = Paused"
    | (created) "\<not> (p_loop s \<and> js_gt (p_startOffset s) (p_loopEnd s))"
               "\<not> (p_loop s \<and> js_gt (p_loopStart s) (p_loopEnd s))"
               "\<not> (\<not> p_loop s \<and> js_gt (p_startOffset s) (p_endOffset s))"
               "p_state s \<noteq> Paused"
    by blast
  then show ?thesis
  proof cases
    case rejected
    with Some have "console (snd (play s)) \<noteq> console s"
      by (cases "p_loop s") (auto simp: play_def console_error_def)
    then show ?thesis by blast
  next
    case paused
    with Some have "pending (snd (play s)) \<noteq> pending s"
      by (cases "p_loop s") (simp_all add: play_def)
    then show ?thesis by blast
  next
    case created
    with Some have "ctx_created (p_ctx (snd (play s))) = Suc (ctx_created (p_ctx s))"
      by (cases "p_loop s"; cases "p_sourceNode s")
         (simp_all add: play_def destroySourceNode_def createBufferSource_def
            emitStateChange_def parseFloat_valueOf_def Let_def split: sum.split)
    then show ?thesis by simp
  qed
qed

text \<open>
  C3 as stated leaves the transport state, the frozen position and the live graph
  undisturbed by a restart-required change in every state other than \<open>running\<close>, and
  fails: \<open>setConfig\<close> calls \<open>stop\<close> before it looks at the state it cached: on the paused
  engine a new rate tears the node down, moves the frozen position from 15 to the start
  offset 10 and leaves the engine stopped.
\<close>

theorem setConfig_not_running_counterexample:
  "restart_required (empty_config\<lparr>rateValue := Some (Num 2)\<rparr>) paused_scenario \<and>
   p_state paused_scenario = Paused \<and>
   p_state (snd (setConfig (empty_config\<lparr>rateValue := Some (Num 2)\<rparr>) paused_scenario)) = Stop \<and>
   p_lastCurrentTime paused_scenario = Num 15 \<and>
   p_lastCurrentTime (snd (setConfig (empty_config\<lparr>rateValue := Some (Num 2)\<rparr>) paused_scenario)) =
     Num 10 \<and>
   p_sourceNode paused_scenario \<noteq> None \<and>
   p_sourceNode (snd (setConfig (empty_config\<lparr>rateValue := Some (Num 2)\<rparr>) paused_scenario)) = None"
  by (simp add: paused_scenario_eval empty_config_def restart_required_def setConfig_def
        stop_def destroySourceNode_def emitStateChange_def Let_def)

text \<open>
  C3, amended. For every call of \<open>setConfig\<close> whose changed-set is restart-required, the engine
  performs \<open>stop\<close>, and then \<open>play\<close> if and only if the state was \<open>running\<close> when
  \<open>setConfig\<close> was called. In every other state no \<open>play\<close> is performed. If no
  playback node is active then, the change is only recorded: the transport state, the
  frozen position and the notifications are left as they are. If a node is active
  (paused or ended), \<open>stop\<close> tears it down, sets the frozen position to the start offset
  just recorded and leaves the engine stopped.
\<close>

theorem setConfig_restart_required:
  assumes "restart_required v s"
  shows "(p_state s = Running \<longrightarrow> setConfig v s = play (stop (storeConfig v s))) \<and>
         (p_state s \<noteq> Running \<longrightarrow>
            setConfig v s = (None, stop (storeConfig v s)) \<and>
            console (snd (setConfig v s)) = console s \<and>
            pending (snd (setConfig v s)) = pending s \<and>
            p_ctx (snd (setConfig v s)) = p_ctx s) \<and>
         (p_state s \<noteq> Running \<and> p_sourceNode s = None \<longrightarrow>
            setConfig v s = (None, storeConfig v s) \<and>
            p_state (snd (setConfig v s)) = p_state s \<and>
            p_lastCurrentTime (snd (setConfig v s)) = p_lastCurrentTime s \<and>
            p_sourceNode (snd (setConfig v s)) = None \<and>
            notified (snd (setConfig v s)) = notified s) \<and>
         (p_state s \<noteq> Running \<and> p_sourceNode s \<noteq> None \<longrightarrow>
            p_state (snd (setConfig v s)) = Stop \<and>
            p_lastCurrentTime (snd (setConfig v s)) = p_startOffset (snd (setConfig v s)) \<and>
            p_sourceNode (snd (setConfig v s)) = None \<and>
            notified (snd (setConfig v s)) =
              notified s @ (if p_onStateChange s then [Stop] else []))"
proof -
  have running: "setConfig v s = play (stop (storeConfig v s))" if "p_state s = Running"
    using assms that by (simp add: setConfig_unfold)
  have idle: "setConfig v s = (None, stop (storeConfig v s))" if "p_state s \<noteq> Running"
    using assms that by (simp add: setConfig_unfold)
  have recorded: "stop (storeConfig v s) = storeConfig v s" if "p_sourceNode s = None"
    using that by (simp add: stop_without_node storeConfig_frame)
  have torn_down:
    "p_state (stop (storeConfig v s)) = Stop \<and>
     p_lastCurrentTime (stop (storeConfig v s)) = p_startOffset (stop (storeConfig v s)) \<and>
     p_sourceNode (stop (storeConfig v s)) = None \<and>
     notified (stop (storeConfig v s)) = notified s @ (if p_onStateChange s then [Stop] else [])"
    if "p_sourceNode s \<noteq> None"
  proof -
    from that obtain n where "p_sourceNode (storeConfig v s) = Some n"
      by (auto simp: storeConfig_frame)
    then show ?thesis
      by (simp add: stop_with_node emitStateChange_def storeConfig_frame Let_def)
  qed
  show ?thesis
    using running idle recorded torn_down
    by (simp add: stop_frame storeConfig_frame)
qed

theorem setConfig_restart_required_witness:
  "restart_required (empty_config\<lparr>rateValue := Some (Num 2)\<rparr>) (range_scenario 5) \<and>
   p_state (range_scenario 5) = Running \<and>
   p_state (snd (setConfig (empty_config\<lparr>rateValue := Some (Num 2)\<rparr>) (range_scenario 5))) =
     Running \<and>
   notified (snd (setConfig (empty_config\<lparr>rateValue := Some (Num 2)\<rparr>) (range_scenario 5))) =
     [Running, Stop, Running] \<and>
   p_state loaded_player \<noteq> Running \<and> p_sourceNode loaded_player = None \<and>
   p_state (snd (setConfig (empty_config\<lparr>rateValue := Some (Num 2)\<rparr>) loaded_player)) = Stop \<and>
   p_rateValue (snd (setConfig (empty_config\<lparr>rateValue := Some (Num 2)\<rparr>) loaded_player)) =
     Num 2 \<and>
   p_state paused_scenario \<noteq> Running \<and> p_sourceNode paused_scenario \<noteq> None \<and>
   p_state (snd (setConfig (empty_config\<lparr>rateValue := Some (Num 2)\<rparr>) paused_scenario)) = Stop"
proof -
  let ?v = "empty_config\<lparr>rateValue := Some (Num 2)\<rparr>"
  have req: "restart_required ?v s" for s
    by (simp add: restart_required_def empty_config_def)
  have run: "p_state (range_scenario 5) = Running"
    by (simp add: range_scenario_eval)
  have idle: "p_state loaded_player \<noteq> Running \<and> p_sourceNode loaded_player = None"
    by (simp add: loaded_player_eval)
  have held: "p_state paused_scenario \<noteq> Running \<and> p_sourceNode paused_scenario \<noteq> None"
    by (simp add: paused_scenario_eval)
  from setConfig_restart_required [OF req, of "range_scenario 5"] run
  have "setConfig ?v (range_scenario 5) = play (stop (storeConfig ?v (range_scenario 5)))"
    by blast
  then have a: "p_state (snd (setConfig ?v (range_scenario 5))) = Running \<and>
                notified (snd (setConfig ?v (range_scenario 5))) = [Running, Stop, Running]"
    by (simp add: range_scenario_eval empty_config_def storeConfig_def stop_def play_def
          destroySourceNode_def createBufferSource_def emitStateChange_def Big_defs
          to_decimal_values parseFloat_values Let_def)
  from setConfig_restart_required [OF req, of loaded_player] idle
  have "setConfig ?v loaded_player = (None, storeConfig ?v loaded_player)" by blast
  then have b: "p_state (snd (setConfig ?v loaded_player)) = Stop \<and>
                p_rateValue (snd (setConfig ?v loaded_player)) = Num 2"
    by (simp add: loaded_player_eval empty_config_def storeConfig_def)
  from setConfig_restart_required [OF req, of paused_scenario] held
  have c: "p_state (snd (setConfig ?v paused_scenario)) = Stop" by blast
  from req run a idle b held c show ?thesis by simp
qed

text \<open>
  C2 as stated lets every restart-required change on a running engine force a
  stop/recreate cycle, and fails where the new configuration does not pass the checks of
  \<open>play\<close>: on the ranged run (10 to 20) a start offset of 25 stops the engine, the node
  is torn down, \<open>play\<close> reports the configuration, and no node is created.
\<close>

theorem setConfig_no_recreate_counterexample:
  "p_state (range_scenario 5) = Running \<and>
   startOffset (empty_config\<lparr>startOffset := Some (Num 25)\<rparr>) \<noteq> None \<and>
   map_option node_id (p_sourceNode (range_scenario 5)) = Some 0 \<and>
   ctx_created (p_ctx (range_scenario 5)) = 1 \<and>
   fst (setConfig (empty_config\<lparr>startOffset := Some (Num 25)\<rparr>) (range_scenario 5)) = None \<and>
   p_state (snd (setConfig (empty_config\<lparr>startOffset := Some (Num 25)\<rparr>) (range_scenario 5))) =
     Stop \<and>
   p_sourceNode (snd (setConfig (empty_config\<lparr>startOffset := Some (Num 25)\<rparr>) (range_scenario 5))) =
     None \<and>
   live_nodes (snd (setConfig (empty_config\<lparr>startOffset := Some (Num 25)\<rparr>) (range_scenario 5))) =
     [] \<and>
   ctx_created
     (p_ctx (snd (setConfig (empty_config\<lparr>startOffset := Some (Num 25)\<rparr>) (range_scenario 5)))) =
     1 \<and>
   console (snd (setConfig (empty_config\<lparr>startOffset := Some (Num 25)\<rparr>) (range_scenario 5))) =
     [EndOffset_has_to_be_greater_than_startOffset]"
  by (simp add: range_scenario_eval empty_config_def setConfig_def stop_def play_def
        destroySourceNode_def emitStateChange_def console_error_def Let_def)

text \<open>
  C2, amended. A partial configuration that carries the gain alone is applied to the
  stored gain and to the live gain node; the playback node, its connection, the context,
  the state, the frozen position and the notifications are untouched, so nothing is
  stopped or restarted. A partial configuration that carries \<open>rate\<close>, \<open>loop\<close>,
  \<open>startOffset\<close>, \<open>loopStart\<close> or \<open>loopEnd\<close>, or \<open>endOffset\<close> while \<open>loop\<close> is false, is
  restart-required: while the engine runs, \<open>setConfig\<close> performs \<open>stop\<close> and then \<open>play\<close>
  on the recorded configuration. The \<open>stop\<close> disconnects the active node, sets the
  frozen position to the recorded start offset and notifies \<open>stop\<close>. With a buffer and
  finite numbers, the \<open>play\<close> then creates and connects a new node, anchored at the
  clock, and notifies \<open>running\<close> if the recorded configuration satisfies the ordering
  invariants; if it violates them, \<open>play\<close> reports it and the engine is left stopped
  with no node. \<open>endOffset\<close> alone while \<open>loop\<close> is true is stored and nothing else
  happens.
\<close>

theorem setConfig_classification:
  "setConfig (empty_config\<lparr>gainValue := Some g\<rparr>) s =
     (None,
      s\<lparr>p_gainValue := g,
        p_gainNode := (case p_gainNode s of
                         Some n \<Rightarrow> Some (n\<lparr>gain_value := g\<rparr>)
                       | None \<Rightarrow> None)\<rparr>) \<and>
   p_sourceNode (snd (setConfig (empty_config\<lparr>gainValue := Some g\<rparr>) s)) = p_sourceNode s \<and>
   live_nodes (snd (setConfig (empty_config\<lparr>gainValue := Some g\<rparr>) s)) = live_nodes s \<and>
   p_ctx (snd (setConfig (empty_config\<lparr>gainValue := Some g\<rparr>) s)) = p_ctx s \<and>
   p_state (snd (setConfig (empty_config\<lparr>gainValue := Some g\<rparr>) s)) = p_state s \<and>
   p_lastCurrentTime (snd (setConfig (empty_config\<lparr>gainValue := Some g\<rparr>) s)) =
     p_lastCurrentTime s \<and>
   notified (snd (setConfig (empty_config\<lparr>gainValue := Some g\<rparr>) s)) = notified s \<and>
   ((rateValue v \<noteq> None \<or> loop v \<noteq> None \<or> startOffset v \<noteq> None \<or>
     loopStart v \<noteq> None \<or> loopEnd v \<noteq> None \<or> (endOffset v \<noteq> None \<and> \<not> p_loop s)) \<and>
    p_state s = Running \<longrightarrow>
      setConfig v s = play (stop (storeConfig v s)) \<and>
      p_lastCurrentTime (snd (setConfig v s)) =
        (if p_sourceNode s = None then p_lastCurrentTime s
         else p_startOffset (storeConfig v s)) \<and>
      (p_audioBuffer s \<noteq> None \<and> config_finite (storeConfig v s) \<and>
       config_valid (storeConfig v s) \<longrightarrow>
         fst (setConfig v s) = None \<and>
         p_state (snd (setConfig v s)) = Running \<and>
         ctx_created (p_ctx (snd (setConfig v s))) = Suc (ctx_created (p_ctx s)) \<and>
         map_option node_id (p_sourceNode (snd (setConfig v s))) =
           Some (ctx_created (p_ctx s)) \<and>
         live_nodes (snd (setConfig v s)) =
           (case p_sourceNode s of None \<Rightarrow> live_nodes s
            | Some n \<Rightarrow> removeAll (node_id n) (live_nodes s)) @ [ctx_created (p_ctx s)] \<and>
         notified (snd (setConfig v s)) =
           notified s @
             (if p_onStateChange s then
                (if p_sourceNode s = None then [] else [Stop]) @ [Running]
              else []) \<and>
         p_ctxStartTime (snd (setConfig v s)) = ctx_currentTime (p_ctx s)) \<and>
      (p_audioBuffer s \<noteq> None \<and> config_finite (storeConfig v s) \<and>
       \<not> config_valid (storeConfig v s) \<longrightarrow>
         fst (setConfig v s) = None \<and>
         p_state (snd (setConfig v s)) = (if p_sourceNode s = None then Running else Stop) \<and>
         p_sourceNode (snd (setConfig v s)) = None \<and>
         ctx_created (p_ctx (snd (setConfig v s))) = ctx_created (p_ctx s) \<and>
         live_nodes (snd (setConfig v s)) =
           (case p_sourceNode s of None \<Rightarrow> live_nodes s
            | Some n \<Rightarrow> removeAll (node_id n) (live_nodes s)) \<and>
         notified (snd (setConfig v s)) =
           notified s @ (if p_onStateChange s \<and> p_sourceNode s \<noteq> None then [Stop] else []) \<and>
         (\<exists>d. d \<noteq> AudioBuffer_cannot_be_empty \<and>
              console (snd (setConfig v s)) = console s @ [d]))) \<and>
   (p_loop s \<longrightarrow>
      setConfig (empty_config\<lparr>endOffset := Some e\<rparr>) s = (None, s\<lparr>p_endOffset := e\<rparr>))"
proof -
  let ?s' = "stop (storeConfig v s)"
  have gain: "setConfig (empty_config\<lparr>gainValue := Some g\<rparr>) s =
     (None,
      s\<lparr>p_gainValue := g,
        p_gainNode := (case p_gainNode s of
                         Some n \<Rightarrow> Some (n\<lparr>gain_value := g\<rparr>)
                       | None \<Rightarrow> None)\<rparr>)"
    by (simp add: setConfig_def empty_config_def Let_def)
  have stored:
    "setConfig (empty_config\<lparr>endOffset := Some e\<rparr>) s = (None, s\<lparr>p_endOffset := e\<rparr>)"
    if "p_loop s"
    using that by (simp add: setConfig_def empty_config_def Let_def)
  have restart: "setConfig v s = play ?s'"
    if "restart_required v s" and "p_state s = Running"
    using that by (simp add: setConfig_unfold)
  have frozen: "p_lastCurrentTime (snd (play ?s')) =
        (if p_sourceNode s = None then p_lastCurrentTime s
         else p_startOffset (storeConfig v s))"
    if "p_state s = Running"
  proof -
    have not_paused: "p_state ?s' \<noteq> Paused"
      using that by (simp add: stop_frame storeConfig_frame)
    have "p_lastCurrentTime (snd (play ?s')) = p_lastCurrentTime ?s'"
    proof (cases "p_audioBuffer ?s'")
      case None
      then show ?thesis by (simp add: play_without_buffer)
    next
      case (Some b)
      show ?thesis
        using Some not_paused
        by (cases "p_loop ?s'"; cases "p_sourceNode ?s'")
           (auto simp: play_def console_error_def destroySourceNode_def
              createBufferSource_def emitStateChange_def parseFloat_valueOf_def Let_def
              split: sum.split)
    qed
    then show ?thesis by (simp add: stop_frame storeConfig_frame)
  qed
  have recreated:
    "fst (play ?s') = None \<and>
     p_state (snd (play ?s')) = Running \<and>
     ctx_created (p_ctx (snd (play ?s'))) = Suc (ctx_created (p_ctx s)) \<and>
     map_option node_id (p_sourceNode (snd (play ?s'))) = Some (ctx_created (p_ctx s)) \<and>
     live_nodes (snd (play ?s')) =
       (case p_sourceNode s of None \<Rightarrow> live_nodes s
        | Some n \<Rightarrow> removeAll (node_id n) (live_nodes s)) @ [ctx_created (p_ctx s)] \<and>
     notified (snd (play ?s')) =
       notified s @
         (if p_onStateChange s then
            (if p_sourceNode s = None then [] else [Stop]) @ [Running]
          else []) \<and>
     p_ctxStartTime (snd (play ?s')) = ctx_currentTime (p_ctx s)"
    if "p_state s = Running" and "p_audioBuffer s \<noteq> None"
      and "config_finite (storeConfig v s)" and "config_valid (storeConfig v s)"
  proof -
    have "p_audioBuffer ?s' \<noteq> None"
      using that(2) by (simp add: stop_frame storeConfig_frame)
    moreover have "config_valid ?s'" using that(4) by (simp add: stop_frame)
    moreover have "config_finite ?s'" using that(3) by (simp add: stop_frame)
    moreover have "p_state ?s' \<noteq> Paused"
      using that(1) by (simp add: stop_frame storeConfig_frame)
    ultimately show ?thesis
      using play_creates_node [of ?s']
      by (cases "p_sourceNode s") (simp_all add: stop_frame storeConfig_frame)
  qed
  have reported:
    "fst (play ?s') = None \<and>
     p_state (snd (play ?s')) = (if p_sourceNode s = None then Running else Stop) \<and>
     p_sourceNode (snd (play ?s')) = None \<and>
     ctx_created (p_ctx (snd (play ?s'))) = ctx_created (p_ctx s) \<and>
     live_nodes (snd (play ?s')) =
       (case p_sourceNode s of None \<Rightarrow> live_nodes s
        | Some n \<Rightarrow> removeAll (node_id n) (live_nodes s)) \<and>
     notified (snd (play ?s')) =
       notified s @ (if p_onStateChange s \<and> p_sourceNode s \<noteq> None then [Stop] else []) \<and>
     (\<exists>d. d \<noteq> AudioBuffer_cannot_be_empty \<and> console (snd (play ?s')) = console s @ [d])"
    if "p_state s = Running" and "p_audioBuffer s \<noteq> None"
      and "config_finite (storeConfig v s)" and "\<not> config_valid (storeConfig v s)"
  proof -
    from that(2) obtain b where "p_audioBuffer ?s' = Some b"
      by (auto simp: stop_frame storeConfig_frame)
    moreover have "\<not> config_valid ?s'" using that(4) by (simp add: stop_frame)
    moreover have "config_finite ?s'" using that(3) by (simp add: stop_frame)
    ultimately obtain d where d: "d \<noteq> AudioBuffer_cannot_be_empty"
      and eq: "play ?s' = (None, ?s'\<lparr>console := console ?s' @ [d]\<rparr>)"
      using play_invalid_config by blast
    have "console (snd (play ?s')) = console s @ [d]"
      by (simp add: eq stop_frame storeConfig_frame)
    with d have "\<exists>d. d \<noteq> AudioBuffer_cannot_be_empty \<and>
        console (snd (play ?s')) = console s @ [d]" by blast
    then show ?thesis
      using that(1)
      by (cases "p_sourceNode s") (simp_all add: eq stop_frame storeConfig_frame)
  qed
  show ?thesis
    using gain stored restart frozen recreated reported
    by (simp add: restart_required_def)
qed

theorem setConfig_classification_witness:
  "p_state (range_scenario 5) = Running \<and>
   map_option node_id (p_sourceNode (range_scenario 5)) = Some 0 \<and>
   live_nodes (range_scenario 5) = [0] \<and>
   p_sourceNode (snd (setConfig (empty_config\<lparr>gainValue := Some (Num (1 / 2))\<rparr>)
                         (range_scenario 5))) =
     p_sourceNode (range_scenario 5) \<and>
   p_gainNode (snd (setConfig (empty_config\<lparr>gainValue := Some (Num (1 / 2))\<rparr>)
                       (range_scenario 5))) =
     Some \<lparr> gain_value = Num (1 / 2) \<rparr> \<and>
   rateValue (empty_config\<lparr>rateValue := Some (Num 2)\<rparr>) \<noteq> None \<and>
   p_audioBuffer (range_scenario 5) \<noteq> None \<and>
   config_finite (storeConfig (empty_config\<lparr>rateValue := Some (Num 2)\<rparr>) (range_scenario 5)) \<and>
   config_valid (storeConfig (empty_config\<lparr>rateValue := Some (Num 2)\<rparr>) (range_scenario 5)) \<and>
   p_state (snd (setConfig (empty_config\<lparr>rateValue := Some (Num 2)\<rparr>) (range_scenario 5))) =
     Running \<and>
   map_option node_id
     (p_sourceNode (snd (setConfig (empty_config\<lparr>rateValue := Some (Num 2)\<rparr>)
                           (range_scenario 5)))) = Some 1 \<and>
   live_nodes (snd (setConfig (empty_config\<lparr>rateValue := Some (Num 2)\<rparr>) (range_scenario 5))) =
     [1] \<and>
   notified (snd (setConfig (empty_config\<lparr>rateValue := Some (Num 2)\<rparr>) (range_scenario 5))) =
     [Running, Stop, Running] \<and>
   p_lastCurrentTime
     (snd (setConfig (empty_config\<lparr>rateValue := Some (Num 2)\<rparr>) (range_scenario 5))) =
     Num 10 \<and>
   p_ctxStartTime
     (snd (setConfig (empty_config\<lparr>rateValue := Some (Num 2)\<rparr>) (range_scenario 5))) =
     Num 5 \<and>
   startOffset (empty_config\<lparr>startOffset := Some (Num 25)\<rparr>) \<noteq> None \<and>
   \<not> config_valid
       (storeConfig (empty_config\<lparr>startOffset := Some (Num 25)\<rparr>) (range_scenario 5)) \<and>
   p_state (snd (setConfig (empty_config\<lparr>startOffset := Some (Num 25)\<rparr>) (range_scenario 5))) =
     Stop \<and>
   live_nodes (snd (setConfig (empty_config\<lparr>startOffset := Some (Num 25)\<rparr>) (range_scenario 5))) =
     [] \<and>
   p_loop (loop_scenario 5) \<and>
   setConfig (empty_config\<lparr>endOffset := Some (Num 28)\<rparr>) (loop_scenario 5) =
     (None, (loop_scenario 5)\<lparr>p_endOffset := Num 28\<rparr>)"
proof -
  let ?g = "empty_config\<lparr>gainValue := Some (Num (1 / 2))\<rparr>"
  let ?r = "empty_config\<lparr>rateValue := Some (Num 2)\<rparr>"
  let ?o = "empty_config\<lparr>startOffset := Some (Num 25)\<rparr>"
  let ?s = "range_scenario 5"
  note rate_case = setConfig_classification [of "Num (1 / 2)" ?s ?r "Num 0"]
  note offset_case = setConfig_classification [of "Num 0" ?s ?o "Num 0"]
  note loop_case = setConfig_classification [of "Num 0" "loop_scenario 5" ?r "Num 28"]
  have run: "p_state ?s = Running"
    and buf: "p_audioBuffer ?s \<noteq> None"
    and node: "map_option node_id (p_sourceNode ?s) = Some 0" "p_sourceNode ?s \<noteq> None"
    and live: "live_nodes ?s = [0]"
    and ctx: "ctx_created (p_ctx ?s) = 1" "ctx_currentTime (p_ctx ?s) = Num 5"
    and sub: "p_onStateChange ?s" "notified ?s = [Running]"
    and gn: "p_gainNode ?s = Some \<lparr> gain_value = Num 1 \<rparr>"
    by (simp_all add: range_scenario_eval)
  have rate: "rateValue ?r \<noteq> None" and offset: "startOffset ?o \<noteq> None"
    by (simp_all add: empty_config_def)
  have finite_r: "config_finite (storeConfig ?r ?s)"
    and valid_r: "config_valid (storeConfig ?r ?s)"
    and start_r: "p_startOffset (storeConfig ?r ?s) = Num 10"
    and finite_o: "config_finite (storeConfig ?o ?s)"
    and invalid_o: "\<not> config_valid (storeConfig ?o ?s)"
    by (simp_all add: range_scenario_eval empty_config_def storeConfig_def config_valid_def
          config_finite_def)
  have lp: "p_loop (loop_scenario 5)"
    by (simp add: loop_scenario_eval)
  from rate_case have eq: "setConfig ?g ?s =
      (None,
       ?s\<lparr>p_gainValue := Num (1 / 2),
          p_gainNode := (case p_gainNode ?s of
                           Some n \<Rightarrow> Some (n\<lparr>gain_value := Num (1 / 2)\<rparr>)
                         | None \<Rightarrow> None)\<rparr>)"
    by (rule conjunct1)
  have a: "p_sourceNode (snd (setConfig ?g ?s)) = p_sourceNode ?s"
    "p_gainNode (snd (setConfig ?g ?s)) = Some \<lparr> gain_value = Num (1 / 2) \<rparr>"
    by (simp_all add: eq gn)
  from rate run
  have pre_r: "(rateValue ?r \<noteq> None \<or> loop ?r \<noteq> None \<or> startOffset ?r \<noteq> None \<or>
              loopStart ?r \<noteq> None \<or> loopEnd ?r \<noteq> None \<or>
              (endOffset ?r \<noteq> None \<and> \<not> p_loop ?s)) \<and> p_state ?s = Running"
    by blast
  from rate_case pre_r buf finite_r valid_r
  have res: "p_state (snd (setConfig ?r ?s)) = Running \<and>
     map_option node_id (p_sourceNode (snd (setConfig ?r ?s))) = Some (ctx_created (p_ctx ?s)) \<and>
     live_nodes (snd (setConfig ?r ?s)) =
       (case p_sourceNode ?s of None \<Rightarrow> live_nodes ?s
        | Some n \<Rightarrow> removeAll (node_id n) (live_nodes ?s)) @ [ctx_created (p_ctx ?s)] \<and>
     notified (snd (setConfig ?r ?s)) =
       notified ?s @
         (if p_onStateChange ?s then
            (if p_sourceNode ?s = None then [] else [Stop]) @ [Running]
          else []) \<and>
     p_lastCurrentTime (snd (setConfig ?r ?s)) =
       (if p_sourceNode ?s = None then p_lastCurrentTime ?s
        else p_startOffset (storeConfig ?r ?s)) \<and>
     p_ctxStartTime (snd (setConfig ?r ?s)) = ctx_currentTime (p_ctx ?s)"
    by blast
  have torn: "(case p_sourceNode ?s of None \<Rightarrow> live_nodes ?s
               | Some n \<Rightarrow> removeAll (node_id n) (live_nodes ?s)) = []"
    by (simp add: range_scenario_eval)
  from res torn ctx sub node(2) start_r
  have b: "p_state (snd (setConfig ?r ?s)) = Running"
    "map_option node_id (p_sourceNode (snd (setConfig ?r ?s))) = Some 1"
    "live_nodes (snd (setConfig ?r ?s)) = [1]"
    "notified (snd (setConfig ?r ?s)) = [Running, Stop, Running]"
    "p_lastCurrentTime (snd (setConfig ?r ?s)) = Num 10"
    "p_ctxStartTime (snd (setConfig ?r ?s)) = Num 5"
    by simp_all
  from offset run
  have pre_o: "(rateValue ?o \<noteq> None \<or> loop ?o \<noteq> None \<or> startOffset ?o \<noteq> None \<or>
              loopStart ?o \<noteq> None \<or> loopEnd ?o \<noteq> None \<or>
              (endOffset ?o \<noteq> None \<and> \<not> p_loop ?s)) \<and> p_state ?s = Running"
    by blast
  from offset_case pre_o buf finite_o invalid_o
  have res_o: "p_state (snd (setConfig ?o ?s)) = (if p_sourceNode ?s = None then Running else Stop) \<and>
     live_nodes (snd (setConfig ?o ?s)) =
       (case p_sourceNode ?s of None \<Rightarrow> live_nodes ?s
        | Some n \<Rightarrow> removeAll (node_id n) (live_nodes ?s))"
    by blast
  with torn node(2)
  have c: "p_state (snd (setConfig ?o ?s)) = Stop" "live_nodes (snd (setConfig ?o ?s)) = []"
    by simp_all
  from loop_case lp
  have d: "setConfig (empty_config\<lparr>endOffset := Some (Num 28)\<rparr>) (loop_scenario 5) =
             (None, (loop_scenario 5)\<lparr>p_endOffset := Num 28\<rparr>)"
    by blast
  from run node(1) live a rate buf finite_r valid_r b offset invalid_o c lp d
  show ?thesis by simp
qed

section \<open>Decode failure in the buffer-acquisition functions\<close>

text \<open>
  C9. The claim asks for a rejection when the bytes cannot be decoded. Both functions
  call \<open>decodeAudioData\<close> with a success callback only and drop the promise it returns:
  with a decoder that fails, the promise handed to the caller stays pending after the
  transfer has succeeded. A failed transfer in \<open>loadAudioFromUrl\<close>, the sibling path,
  does reject.
\<close>

theorem decode_failure_stays_pending:
  "loadAudioFromUrl (\<lambda>arrayBuffer. None) (Xhr_load [0, 1, 2]) = Pending \<and>
   loadAudioFromFile (\<lambda>arrayBuffer. None) (Result_buffer [0, 1, 2]) = Pending \<and>
   loadAudioFromUrl (\<lambda>arrayBuffer. None) Xhr_error = Rejected"
  by (simp add: loadAudioFromUrl_def loadAudioFromFile_def)

end
